theory Spec2Isabelle
  imports Complex_Main "HOL-Library.Word"
begin

section \<open>Conventions\<close>

text \<open>
  A Python \<^verbatim>\<open>str\<close> is a sequence of Unicode code points; it is modelled as a list of
  natural numbers.  \<open>py\<close> turns an ASCII literal into such a list.  Python floats are
  modelled by real numbers: a value of the model is the exact number the float
  computation approximates (a decimal literal stands for its exact decimal value).
\<close>

type_synonym pystr = "nat list"

definition py :: "string \<Rightarrow> pystr" where
  "py s = map of_char s"

definition rupee :: nat where "rupee = 8377"  \<comment> \<open>U+20B9, the rupee sign\<close>
definition comma :: nat where "comma = 44"
definition dot :: nat where "dot = 46"

section \<open>Regular expressions as the \<^verbatim>\<open>re\<close> module matches them\<close>

text \<open>
  The regular expressions of the source use literals, character classes, \<^verbatim>\<open>\s\<close>,
  \<^verbatim>\<open>\b\<close>, sequencing, alternation, the greedy operators \<^verbatim>\<open>?\<close>, \<^verbatim>\<open>*\<close>, \<^verbatim>\<open>+\<close>,
  \<^verbatim>\<open>{m,n}\<close> and capturing groups.  \<open>m\<close> is a backtracking matcher in
  continuation-passing style: it tries the alternatives in the order the \<^verbatim>\<open>re\<close> module
  does (greedy first, left alternative first), so the first match it finds is the match
  \<^verbatim>\<open>re.search\<close> returns.  A position is the pair of the text already passed (reversed)
  and the text still ahead.
\<close>

datatype regex =
    Eps
  | Lit nat
  | Cls "nat \<Rightarrow> bool"
  | WordB "nat \<Rightarrow> bool"
  | Seq regex regex
  | Alt regex regex
  | Opt regex
  | Star regex
  | Group nat regex

type_synonym pos = "pystr \<times> pystr"
type_synonym caps = "nat \<Rightarrow> pystr option"

text \<open>\<^verbatim>\<open>\b\<close>: exactly one of the two neighbouring characters is a word character
  (a missing neighbour counts as a non-word character).\<close>

definition at_boundary :: "(nat \<Rightarrow> bool) \<Rightarrow> pos \<Rightarrow> bool" where
  "at_boundary w st =
     ((case fst st of [] \<Rightarrow> False | c # _ \<Rightarrow> w c) \<noteq> (case snd st of [] \<Rightarrow> False | c # _ \<Rightarrow> w c))"

definition consumed :: "pos \<Rightarrow> pos \<Rightarrow> pystr" where
  "consumed st st' = take (length (snd st) - length (snd st')) (snd st)"

function m :: "regex \<Rightarrow> pos \<Rightarrow> caps \<Rightarrow> (pos \<Rightarrow> caps \<Rightarrow> caps option) \<Rightarrow> caps option" where
  "m Eps st cs k = k st cs"
| "m (Lit c) st cs k =
     (case snd st of [] \<Rightarrow> None
      | x # xs \<Rightarrow> if x = c then k (x # fst st, xs) cs else None)"
| "m (Cls f) st cs k =
     (case snd st of [] \<Rightarrow> None
      | x # xs \<Rightarrow> if f x then k (x # fst st, xs) cs else None)"
| "m (WordB w) st cs k = (if at_boundary w st then k st cs else None)"
| "m (Seq a b) st cs k = m a st cs (\<lambda>st' cs'. m b st' cs' k)"
| "m (Alt a b) st cs k = (case m a st cs k of Some r \<Rightarrow> Some r | None \<Rightarrow> m b st cs k)"
| "m (Opt a) st cs k = (case m a st cs k of Some r \<Rightarrow> Some r | None \<Rightarrow> k st cs)"
| "m (Star a) st cs k =
     (case m a st cs (\<lambda>st' cs'. if length (snd st') < length (snd st)
                               then m (Star a) st' cs' k else None)
      of Some r \<Rightarrow> Some r | None \<Rightarrow> k st cs)"
| "m (Group i a) st cs k = m a st cs (\<lambda>st' cs'. k st' (cs'(i \<mapsto> consumed st st')))"
  by pat_completeness auto
termination
  by (relation "measures [\<lambda>(r, st, cs, k). size r, \<lambda>(r, st, cs, k). length (snd st)]") auto

text \<open>\<^verbatim>\<open>re.search\<close>: the match at the leftmost start position that has one.\<close>

fun search_from :: "regex \<Rightarrow> pystr \<Rightarrow> pystr \<Rightarrow> caps option" where
  "search_from r p [] = m r (p, []) Map.empty (\<lambda>st cs. Some cs)"
| "search_from r p (x # xs) =
     (case m r (p, x # xs) Map.empty (\<lambda>st cs. Some cs) of
        Some cs \<Rightarrow> Some cs
      | None \<Rightarrow> search_from r (x # p) xs)"

definition re_search :: "regex \<Rightarrow> pystr \<Rightarrow> caps option" where
  "re_search r txt = search_from r [] txt"

definition plus_re :: "regex \<Rightarrow> regex" where
  "plus_re r = Seq r (Star r)"

fun times_re :: "nat \<Rightarrow> regex \<Rightarrow> regex" where
  "times_re 0 r = Eps"
| "times_re (Suc n) r = Seq r (times_re n r)"

fun upto_re :: "nat \<Rightarrow> regex \<Rightarrow> regex" where
  "upto_re 0 r = Eps"
| "upto_re (Suc n) r = Opt (Seq r (upto_re n r))"

text \<open>\<^verbatim>\<open>r{lo,hi}\<close>, greedy.\<close>

definition rep_re :: "nat \<Rightarrow> nat \<Rightarrow> regex \<Rightarrow> regex" where
  "rep_re lo hi r = Seq (times_re lo r) (upto_re (hi - lo) r)"

fun str_re :: "pystr \<Rightarrow> regex" where
  "str_re [] = Eps"
| "str_re (c # cs) = Seq (Lit c) (str_re cs)"

fun alts :: "regex list \<Rightarrow> regex" where
  "alts [] = Eps"
| "alts [r] = r"
| "alts (r # rs) = Alt r (alts rs)"

fun seqs :: "regex list \<Rightarrow> regex" where
  "seqs [] = Eps"
| "seqs [r] = r"
| "seqs (r # rs) = Seq r (seqs rs)"

definition is_digit :: "nat \<Rightarrow> bool" where
  "is_digit c = (48 \<le> c \<and> c \<le> 57)"

text \<open>\<^verbatim>\<open>\s\<close> on a \<^verbatim>\<open>str\<close> pattern: the code points for which \<^verbatim>\<open>str.isspace\<close> holds.\<close>

definition is_space :: "nat \<Rightarrow> bool" where
  "is_space c = ((9 \<le> c \<and> c \<le> 13) \<or> (28 \<le> c \<and> c \<le> 32) \<or> c = 133 \<or> c = 160 \<or> c = 5760
     \<or> (8192 \<le> c \<and> c \<le> 8202) \<or> c = 8232 \<or> c = 8233 \<or> c = 8239 \<or> c = 8287 \<or> c = 12288)"

text \<open>
  \<^verbatim>\<open>\w\<close> on a \<^verbatim>\<open>str\<close> pattern: alphanumeric or underscore.  For ASCII this is
  \<^verbatim>\<open>[A-Za-z0-9_]\<close>; beyond ASCII it is the Unicode table behind \<^verbatim>\<open>str.isalnum\<close>, which
  is not part of the repository and is taken as the parameter \<open>uni_alnum\<close>.
\<close>

definition is_word :: "(nat \<Rightarrow> bool) \<Rightarrow> nat \<Rightarrow> bool" where
  "is_word uni_alnum c =
     (if c < 128 then is_digit c \<or> (65 \<le> c \<and> c \<le> 90) \<or> (97 \<le> c \<and> c \<le> 122) \<or> c = 95
      else uni_alnum c)"

section \<open>The number parser (app/utils/number\_parsing.py)\<close>

text \<open>\<^verbatim>\<open>[0-9,\.]\<close>\<close>

definition is_num_char :: "nat \<Rightarrow> bool" where
  "is_num_char c = (is_digit c \<or> c = comma \<or> c = dot)"

text \<open>\<^verbatim>\<open>r'R\s*([0-9,\.]+)\s*(Cr|Crore|CR|cr|Million|Mn)?'\<close>, where \<^verbatim>\<open>R\<close> stands for
  the rupee sign U+20B9 of the source.\<close>

definition pattern1 :: regex where
  "pattern1 =
     seqs [Lit rupee, Star (Cls is_space), Group 1 (plus_re (Cls is_num_char)),
           Star (Cls is_space),
           Opt (Group 2 (alts [str_re (py ''Cr''), str_re (py ''Crore''), str_re (py ''CR''),
                               str_re (py ''cr''), str_re (py ''Million''), str_re (py ''Mn'')]))]"

text \<open>\<^verbatim>\<open>r'\b([0-9]{1,3}(?:,[0-9]{2})+(?:,[0-9]{3})?)\b'\<close>\<close>

definition pattern2 :: "(nat \<Rightarrow> bool) \<Rightarrow> regex" where
  "pattern2 uni_alnum =
     seqs [WordB (is_word uni_alnum),
           Group 1 (seqs [rep_re 1 3 (Cls is_digit),
                          plus_re (Seq (Lit comma) (rep_re 2 2 (Cls is_digit))),
                          Opt (Seq (Lit comma) (rep_re 3 3 (Cls is_digit)))]),
           WordB (is_word uni_alnum)]"

text \<open>\<^verbatim>\<open>r'\b([0-9]{1,3}(?:,[0-9]{3})+)\b'\<close>\<close>

definition pattern3 :: "(nat \<Rightarrow> bool) \<Rightarrow> regex" where
  "pattern3 uni_alnum =
     seqs [WordB (is_word uni_alnum),
           Group 1 (seqs [rep_re 1 3 (Cls is_digit),
                          plus_re (Seq (Lit comma) (rep_re 3 3 (Cls is_digit)))]),
           WordB (is_word uni_alnum)]"

text \<open>\<^verbatim>\<open>r'\b([0-9]+(?:\.[0-9]+)?)\b'\<close>\<close>

definition pattern4 :: "(nat \<Rightarrow> bool) \<Rightarrow> regex" where
  "pattern4 uni_alnum =
     seqs [WordB (is_word uni_alnum),
           Group 1 (seqs [plus_re (Cls is_digit),
                          Opt (Seq (Lit dot) (plus_re (Cls is_digit)))]),
           WordB (is_word uni_alnum)]"

definition digits_val :: "pystr \<Rightarrow> nat" where
  "digits_val ds = foldl (\<lambda>a c. 10 * a + (c - 48)) 0 ds"

text \<open>
  The builtin \<^verbatim>\<open>float\<close> on the strings the parser hands it, which consist of digits
  and dots only: digits with at most one dot and at least one digit denote their decimal
  value, anything else raises \<^verbatim>\<open>ValueError\<close> (\<open>None\<close>).
\<close>

definition py_float :: "pystr \<Rightarrow> real option" where
  "py_float s =
     (let ip = takeWhile is_digit s; r = dropWhile is_digit s in
      case r of
        [] \<Rightarrow> if ip = [] then None else Some (real (digits_val ip))
      | c # fp \<Rightarrow>
          if c = dot \<and> list_all is_digit fp \<and> (ip \<noteq> [] \<or> fp \<noteq> [])
          then Some (real (digits_val ip) + real (digits_val fp) / 10 ^ length fp)
          else None)"

text \<open>\<^verbatim>\<open>num_str.replace(',', '')\<close>\<close>

definition replace_comma :: "pystr \<Rightarrow> pystr" where
  "replace_comma num_str = filter (\<lambda>c. c \<noteq> comma) num_str"

text \<open>
  \<^verbatim>\<open>try: return float(m.group(1).replace(',', '')) except: return None\<close>.  A group that
  did not take part in the match is \<^verbatim>\<open>None\<close> in Python and makes the \<^verbatim>\<open>try\<close> block raise.
\<close>

definition float_of_group :: "caps \<Rightarrow> real option" where
  "float_of_group mt =
     (case mt 1 of None \<Rightarrow> None | Some num_str \<Rightarrow> py_float (replace_comma num_str))"

text \<open>The last pattern converts the group as it is: \<^verbatim>\<open>float(m4.group(1))\<close>.\<close>

definition float_of_group_plain :: "caps \<Rightarrow> real option" where
  "float_of_group_plain mt = (case mt 1 of None \<Rightarrow> None | Some num_str \<Rightarrow> py_float num_str)"

definition parse_inr_number :: "(nat \<Rightarrow> bool) \<Rightarrow> pystr \<Rightarrow> real option" where
  "parse_inr_number uni_alnum txt =
     (if txt = [] then None
      else case re_search pattern1 txt of
        Some m1 \<Rightarrow> float_of_group m1
      | None \<Rightarrow>
     (case re_search (pattern2 uni_alnum) txt of
        Some m2 \<Rightarrow> float_of_group m2
      | None \<Rightarrow>
     (case re_search (pattern3 uni_alnum) txt of
        Some m3 \<Rightarrow> float_of_group m3
      | None \<Rightarrow>
     (case re_search (pattern4 uni_alnum) txt of
        Some m4 \<Rightarrow> float_of_group_plain m4
      | None \<Rightarrow> None))))"

subsection \<open>The currency-marked number, read off the text directly\<close>

text \<open>
  What the first pattern is meant to find, written as a scan of the text without the
  regular-expression engine: the leftmost rupee sign that is followed, after optional
  whitespace, by at least one character of \<^verbatim>\<open>[0-9,\.]\<close>; the result is the longest run
  of such characters there.
\<close>

fun currency_marked :: "pystr \<Rightarrow> pystr option" where
  "currency_marked [] = None"
| "currency_marked (c # cs) =
     (if c = rupee \<and> takeWhile is_num_char (dropWhile is_space cs) \<noteq> []
      then Some (takeWhile is_num_char (dropWhile is_space cs))
      else currency_marked cs)"

text \<open>A Unicode table for texts whose only non-ASCII character is the rupee sign.\<close>

definition ascii_text :: "nat \<Rightarrow> bool" where
  "ascii_text c = False"

subsection \<open>Auxiliary notions for the proofs about the first pattern\<close>

fun no_group :: "regex \<Rightarrow> bool" where
  "no_group (Group i r) = False"
| "no_group (Seq a b) = (no_group a \<and> no_group b)"
| "no_group (Alt a b) = (no_group a \<and> no_group b)"
| "no_group (Opt a) = no_group a"
| "no_group (Star a) = no_group a"
| "no_group r = True"

definition unit_re :: regex where
  "unit_re = alts [str_re (py ''Cr''), str_re (py ''Crore''), str_re (py ''CR''),
                   str_re (py ''cr''), str_re (py ''Million''), str_re (py ''Mn'')]"

text \<open>The first pattern from its second \<^verbatim>\<open>\s*\<close> on, and from its group on.\<close>

definition tail_k :: "pos \<Rightarrow> caps \<Rightarrow> caps option" where
  "tail_k = (\<lambda>st c. m (Seq (Star (Cls is_space)) (Opt (Group 2 unit_re))) st c (\<lambda>st cs. Some cs))"

definition num_k :: "pos \<Rightarrow> caps \<Rightarrow> caps option" where
  "num_k = (\<lambda>st c. m (Seq (Group 1 (plus_re (Cls is_num_char)))
                         (Seq (Star (Cls is_space)) (Opt (Group 2 unit_re)))) st c
                    (\<lambda>st cs. Some cs))"

section \<open>The extraction cascade (app/tools/financial\_extractor\_tool.py)\<close>

subsection \<open>What the Python runtime and the PDF libraries supply\<close>

text \<open>
  The cascade reads a PDF through camelot, pdfplumber, pdf2image and pytesseract, and
  it uses \<^verbatim>\<open>str.lower\<close> and case-insensitive matching, whose Unicode tables are part of
  the Python runtime.  None of this is code of the repository; it is collected in an
  environment the model takes as a parameter:
  \<^item> \<open>str_lower\<close> is \<^verbatim>\<open>str.lower\<close>;
  \<^item> \<open>uni_alnum\<close> is \<^verbatim>\<open>str.isalnum\<close> on the code points beyond ASCII;
  \<^item> \<open>ci_eq c d\<close> says that the text character \<open>c\<close> matches the pattern character \<open>d\<close>
    under \<^verbatim>\<open>re.IGNORECASE\<close>;
  \<^item> \<open>has_camelot\<close> is the module flag \<^verbatim>\<open>_HAS_CAMELOT\<close>;
  \<^item> \<open>extract_with_camelot\<close>, \<open>extract_text_with_pdfplumber\<close> and \<open>extract_with_ocr\<close>
    are the results of the three methods of these names, which wrap the library calls
    and return a list of candidates, respectively a text (empty when the library is
    missing or fails), for the document at a path.
\<close>

text \<open>A candidate as the backends return it: a dictionary with a label and a value, and
  possibly a unit, a page, a confidence and a context.\<close>

record raw_metric =
  rm_label :: pystr
  rm_value :: real
  rm_unit :: "pystr option"
  rm_page :: "int option"
  rm_confidence :: "real option"
  rm_context :: "pystr option"

record env =
  str_lower :: "pystr \<Rightarrow> pystr"
  uni_alnum :: "nat \<Rightarrow> bool"
  ci_eq :: "nat \<Rightarrow> nat \<Rightarrow> bool"
  has_camelot :: bool
  extract_with_camelot :: "pystr \<Rightarrow> raw_metric list"
  extract_text_with_pdfplumber :: "pystr \<Rightarrow> pystr"
  extract_with_ocr :: "pystr \<Rightarrow> nat \<Rightarrow> pystr"

subsection \<open>Label normalisation\<close>

text \<open>\<^verbatim>\<open>needle in hay\<close> on strings.\<close>

fun contains :: "pystr \<Rightarrow> pystr \<Rightarrow> bool" where
  "contains needle [] = (needle = [])"
| "contains needle (x # xs) = (take (length needle) (x # xs) = needle \<or> contains needle xs)"

definition normalize_metric_key :: "(pystr \<Rightarrow> pystr) \<Rightarrow> pystr \<Rightarrow> pystr option" where
  "normalize_metric_key lower label =
     (if label = [] then None
      else let label_lower = lower label in
        if contains (py ''revenue'') label_lower \<or> contains (py ''sales'') label_lower
          then Some (py ''total_revenue'')
        else if (contains (py ''net'') label_lower \<and> contains (py ''profit'') label_lower)
                \<or> contains (py ''pat'') label_lower
                \<or> contains (py ''profit after tax'') label_lower
          then Some (py ''net_profit'')
        else if (contains (py ''operating'') label_lower
                 \<and> (contains (py ''profit'') label_lower \<or> contains (py ''income'') label_lower))
                \<or> label_lower = py ''ebit''
          then Some (py ''operating_profit'')
        else if contains (py ''ebitda'') label_lower
          then Some (py ''ebitda'')
        else if contains (py ''eps'') label_lower \<or> contains (py ''earnings per share'') label_lower
          then Some (py ''eps'')
        else if contains (py ''operating'') label_lower \<and> contains (py ''margin'') label_lower
          then Some (py ''operating_margin'')
        else None)"

subsection \<open>Candidates from linear text\<close>

text \<open>
  \<^verbatim>\<open>re.search(re.escape(label), text, re.IGNORECASE)\<close>: the leftmost place where the
  label occurs, character by character, ignoring case.  The result is the text from the
  start of the match on (\<^verbatim>\<open>text[match.start():]\<close>).
\<close>

fun find_ci :: "(nat \<Rightarrow> nat \<Rightarrow> bool) \<Rightarrow> pystr \<Rightarrow> pystr \<Rightarrow> pystr option" where
  "find_ci eq label [] = (if label = [] then Some [] else None)"
| "find_ci eq label (x # xs) =
     (if length label \<le> length (x # xs) \<and> list_all2 eq (take (length label) (x # xs)) label
      then Some (x # xs)
      else find_ci eq label xs)"

definition labels :: "pystr list" where
  "labels = [py ''Total Revenue'', py ''Revenue'', py ''Net Revenue'',
             py ''Net Profit'', py ''Profit After Tax'', py ''PAT'',
             py ''Operating Profit'', py ''EBIT'', py ''Operating Income'',
             py ''EBITDA'',
             py ''EPS'', py ''Earnings Per Share'']"

definition INR_Cr :: pystr where
  "INR_Cr = py ''INR_Cr''"

definition parse_metrics_from_text :: "env \<Rightarrow> pystr \<Rightarrow> raw_metric list" where
  "parse_metrics_from_text E txt =
     List.map_filter
       (\<lambda>label.
          case find_ci (ci_eq E) label txt of
            None \<Rightarrow> None
          | Some from_start \<Rightarrow>
              (let ctx = take 300 from_start in
               case parse_inr_number (uni_alnum E) ctx of
                 None \<Rightarrow> None
               | Some v \<Rightarrow>
                   Some \<lparr>rm_label = label, rm_value = v, rm_unit = Some INR_Cr, rm_page = None,
                         rm_confidence = None, rm_context = Some (take 150 ctx)\<rparr>))
       labels"

subsection \<open>The metric map and the attempt log\<close>

text \<open>\<^verbatim>\<open>"source": {"method": ..., "page": ...}\<close>; only the camelot entry has a page.\<close>

datatype source = Camelot "int option" | Pdfplumber | Ocr

record metric =
  m_value :: real
  m_unit :: pystr
  m_confidence :: real
  m_source :: source
  m_label :: pystr

text \<open>A Python dictionary keeps its keys in insertion order: the metric map is a list of
  key-entry pairs, looked up with \<open>map_of\<close>; a new key is appended.\<close>

type_synonym metrics = "(pystr \<times> metric) list"

record extraction_log =
  camelot_attempted :: bool
  camelot_metrics_found :: nat
  camelot_hits :: "raw_metric list"
  pdfplumber_attempted :: bool
  pdfplumber_metrics_found :: nat
  pdfplumber_snippets :: "raw_metric list"
  ocr_attempted :: bool
  ocr_metrics_found :: nat
  ocr_text_length :: nat

text \<open>The backend methods the cascade has invoked, in order (an effect of the source,
  made a part of the state).\<close>

datatype backend = CamelotBackend | PdfplumberBackend | OcrBackend

record cascade_state =
  st_metrics :: metrics
  st_log :: extraction_log
  st_calls :: "backend list"

record 'meta extraction_result =
  doc_meta :: 'meta
  metrics :: metrics
  extraction_log :: extraction_log
  metrics_count :: nat
  backend_calls :: "backend list"

definition initial_state :: cascade_state where
  "initial_state =
     \<lparr>st_metrics = [],
      st_log = \<lparr>camelot_attempted = False, camelot_metrics_found = 0, camelot_hits = [],
                pdfplumber_attempted = False, pdfplumber_metrics_found = 0,
                pdfplumber_snippets = [],
                ocr_attempted = False, ocr_metrics_found = 0, ocr_text_length = 0\<rparr>,
      st_calls = []\<rparr>"

subsection \<open>The three stages\<close>

text \<open>
  The loop shared by the three stages:
  \<^verbatim>\<open>
  for metric in candidates:
      key = self._normalize_metric_key(metric["label"])
      if key and <guard> and key not in metrics:
          metrics[key] = <entry>
          extraction_log[<method>]["metrics_found"] += 1
  \<close>
  The guard is absent in the table and the OCR stage and is
  \<^verbatim>\<open>key in missing_metrics\<close> in the text stage.
\<close>

fun insert_candidates ::
  "(pystr \<Rightarrow> pystr) \<Rightarrow> (pystr \<Rightarrow> bool) \<Rightarrow> (raw_metric \<Rightarrow> metric) \<Rightarrow> raw_metric list
     \<Rightarrow> metrics \<Rightarrow> nat \<Rightarrow> metrics \<times> nat" where
  "insert_candidates lower guard entry [] ms found = (ms, found)"
| "insert_candidates lower guard entry (metric # rest) ms found =
     (case normalize_metric_key lower (rm_label metric) of
        None \<Rightarrow> insert_candidates lower guard entry rest ms found
      | Some key \<Rightarrow>
          if guard key \<and> map_of ms key = None
          then insert_candidates lower guard entry rest (ms @ [(key, entry metric)]) (found + 1)
          else insert_candidates lower guard entry rest ms found)"

definition camelot_entry :: "raw_metric \<Rightarrow> metric" where
  "camelot_entry metric =
     \<lparr>m_value = rm_value metric,
      m_unit = (case rm_unit metric of None \<Rightarrow> INR_Cr | Some u \<Rightarrow> u),
      m_confidence = (case rm_confidence metric of None \<Rightarrow> 85 / 100 | Some c \<Rightarrow> c),
      m_source = Camelot (rm_page metric),
      m_label = rm_label metric\<rparr>"

definition pdfplumber_entry :: "raw_metric \<Rightarrow> metric" where
  "pdfplumber_entry metric =
     \<lparr>m_value = rm_value metric,
      m_unit = (case rm_unit metric of None \<Rightarrow> INR_Cr | Some u \<Rightarrow> u),
      m_confidence = 65 / 100,
      m_source = Pdfplumber,
      m_label = rm_label metric\<rparr>"

definition ocr_entry :: "raw_metric \<Rightarrow> metric" where
  "ocr_entry metric =
     \<lparr>m_value = rm_value metric,
      m_unit = (case rm_unit metric of None \<Rightarrow> INR_Cr | Some u \<Rightarrow> u),
      m_confidence = 45 / 100,
      m_source = Ocr,
      m_label = rm_label metric\<rparr>"

text \<open>Method 1: camelot table extraction.\<close>

definition table_stage :: "env \<Rightarrow> pystr \<Rightarrow> cascade_state \<Rightarrow> cascade_state" where
  "table_stage E pdf_path st =
     (if has_camelot E then
        (let camelot_metrics = extract_with_camelot E pdf_path;
             (ms, found) = insert_candidates (str_lower E) (\<lambda>key. True) camelot_entry
                             camelot_metrics (st_metrics st) 0
         in st\<lparr>st_metrics := ms,
                st_log := (st_log st)\<lparr>camelot_attempted := True,
                                       camelot_metrics_found := found,
                                       camelot_hits := camelot_metrics\<rparr>,
                st_calls := st_calls st @ [CamelotBackend]\<rparr>)
      else st)"

definition required_metrics :: "pystr list" where
  "required_metrics = [py ''total_revenue'', py ''net_profit'', py ''operating_profit'', py ''ebitda'']"

text \<open>Method 2: pdfplumber text extraction, if a required metric is still missing.\<close>

definition text_stage :: "env \<Rightarrow> pystr \<Rightarrow> cascade_state \<Rightarrow> cascade_state" where
  "text_stage E pdf_path st =
     (let missing_metrics = filter (\<lambda>k. map_of (st_metrics st) k = None) required_metrics in
      if missing_metrics \<noteq> [] then
        (let st1 = st\<lparr>st_log := (st_log st)\<lparr>pdfplumber_attempted := True\<rparr>,
                       st_calls := st_calls st @ [PdfplumberBackend]\<rparr>;
             txt = extract_text_with_pdfplumber E pdf_path
         in if txt \<noteq> [] then
              (let pdfplumber_metrics = parse_metrics_from_text E txt;
                   (ms, found) = insert_candidates (str_lower E) (\<lambda>key. key \<in> set missing_metrics)
                                   pdfplumber_entry pdfplumber_metrics (st_metrics st1) 0
               in st1\<lparr>st_metrics := ms,
                       st_log := (st_log st1)\<lparr>pdfplumber_metrics_found := found,
                                               pdfplumber_snippets := take 5 pdfplumber_metrics\<rparr>\<rparr>)
            else st1)
      else st)"

definition critical_metrics :: "pystr list" where
  "critical_metrics = [py ''total_revenue'', py ''net_profit'']"

text \<open>Method 3: OCR, if a critical metric is still missing.\<close>

definition ocr_stage :: "env \<Rightarrow> pystr \<Rightarrow> cascade_state \<Rightarrow> cascade_state" where
  "ocr_stage E pdf_path st =
     (let critical_missing = list_ex (\<lambda>k. map_of (st_metrics st) k = None) critical_metrics in
      if critical_missing then
        (let st1 = st\<lparr>st_log := (st_log st)\<lparr>ocr_attempted := True\<rparr>,
                       st_calls := st_calls st @ [OcrBackend]\<rparr>;
             ocr_text = extract_with_ocr E pdf_path 5
         in if ocr_text \<noteq> [] then
              (let ocr_metrics = parse_metrics_from_text E ocr_text;
                   (ms, found) = insert_candidates (str_lower E) (\<lambda>key. True) ocr_entry
                                   ocr_metrics (st_metrics st1) 0
               in st1\<lparr>st_metrics := ms,
                       st_log := (st_log st1)\<lparr>ocr_text_length := length ocr_text,
                                               ocr_metrics_found := found\<rparr>\<rparr>)
            else st1)
      else st)"

definition after_table :: "env \<Rightarrow> pystr \<Rightarrow> cascade_state" where
  "after_table E pdf_path = table_stage E pdf_path initial_state"

definition after_text :: "env \<Rightarrow> pystr \<Rightarrow> cascade_state" where
  "after_text E pdf_path = text_stage E pdf_path (after_table E pdf_path)"

definition after_ocr :: "env \<Rightarrow> pystr \<Rightarrow> cascade_state" where
  "after_ocr E pdf_path = ocr_stage E pdf_path (after_text E pdf_path)"

definition extract_from_single_report :: "env \<Rightarrow> pystr \<Rightarrow> 'meta \<Rightarrow> 'meta extraction_result" where
  "extract_from_single_report E pdf_path metadata =
     (let st = after_ocr E pdf_path
      in \<lparr>doc_meta = metadata,
          metrics = st_metrics st,
          extraction_log = st_log st,
          metrics_count = length (st_metrics st),
          backend_calls = st_calls st\<rparr>)"

subsection \<open>Auxiliary notions for the proofs about the cascade\<close>

text \<open>What every stage does to the metric map: it appends entries of its own source and
  keeps the keys distinct.\<close>

definition stage_ok :: "(source \<Rightarrow> bool) \<Rightarrow> cascade_state \<Rightarrow> cascade_state \<Rightarrow> bool" where
  "stage_ok src st st' =
     (\<exists>new. st_metrics st' = st_metrics st @ new \<and> (\<forall>x\<in>set new. src (m_source (snd x)))
         \<and> (distinct (map fst (st_metrics st)) \<longrightarrow> distinct (map fst (st_metrics st'))))"

text \<open>\<^verbatim>\<open>str.lower\<close> and case-insensitive matching on ASCII text.\<close>

definition ascii_lower_char :: "nat \<Rightarrow> nat" where
  "ascii_lower_char c = (if 65 \<le> c \<and> c \<le> 90 then c + 32 else c)"

text \<open>
  A concrete run: camelot finds two revenue rows, pdfplumber a text with a revenue and
  a net profit figure, OCR a text with a profit-after-tax and an EPS figure.
\<close>

definition demo_env :: env where
  "demo_env =
     \<lparr>str_lower = map ascii_lower_char,
      uni_alnum = ascii_text,
      ci_eq = (\<lambda>c d. ascii_lower_char c = ascii_lower_char d),
      has_camelot = True,
      extract_with_camelot =
        (\<lambda>path. [\<lparr>rm_label = py ''Revenue'', rm_value = 100, rm_unit = Some INR_Cr,
                     rm_page = Some 1, rm_confidence = Some (85 / 100), rm_context = None\<rparr>,
                   \<lparr>rm_label = py ''Total Sales'', rm_value = 999, rm_unit = Some INR_Cr,
                     rm_page = Some 2, rm_confidence = Some (85 / 100), rm_context = None\<rparr>]),
      extract_text_with_pdfplumber = (\<lambda>path. py ''Revenue 7 Net Profit 50''),
      extract_with_ocr = (\<lambda>path max_pages. py ''PAT 3 EPS 2'')\<rparr>"

text \<open>The same document when pdfplumber yields no text.\<close>

definition demo_env_no_text :: env where
  "demo_env_no_text = demo_env\<lparr>extract_text_with_pdfplumber := (\<lambda>path. [])\<rparr>"

definition demo_revenue :: metric where
  "demo_revenue = \<lparr>m_value = 100, m_unit = INR_Cr, m_confidence = 85 / 100,
                    m_source = Camelot (Some 1), m_label = py ''Revenue''\<rparr>"

subsection \<open>Precedence among the candidates of the backends\<close>

text \<open>
  What a stage sets for a key is made from the first of its candidates whose label
  normalises to the key.
\<close>

definition first_candidate :: "(pystr \<Rightarrow> pystr) \<Rightarrow> pystr \<Rightarrow> raw_metric list \<Rightarrow> raw_metric option" where
  "first_candidate lower k candidates =
     find (\<lambda>metric. normalize_metric_key lower (rm_label metric) = Some k) candidates"

text \<open>The candidates of the three backends for a document.\<close>

definition camelot_candidates :: "env \<Rightarrow> pystr \<Rightarrow> raw_metric list" where
  "camelot_candidates E pdf_path = (if has_camelot E then extract_with_camelot E pdf_path else [])"

definition pdfplumber_candidates :: "env \<Rightarrow> pystr \<Rightarrow> raw_metric list" where
  "pdfplumber_candidates E pdf_path =
     parse_metrics_from_text E (extract_text_with_pdfplumber E pdf_path)"

definition ocr_candidates :: "env \<Rightarrow> pystr \<Rightarrow> raw_metric list" where
  "ocr_candidates E pdf_path = parse_metrics_from_text E (extract_with_ocr E pdf_path 5)"

text \<open>
  The entry each method gives a key, by precedence: the table backend for every key it
  has a candidate for; the text backend for the required keys only; OCR, which runs when
  neither of them has set both critical keys, for every key.
\<close>

definition set_by_table :: "env \<Rightarrow> pystr \<Rightarrow> pystr \<Rightarrow> metric option" where
  "set_by_table E pdf_path k =
     map_option camelot_entry (first_candidate (str_lower E) k (camelot_candidates E pdf_path))"

definition set_by_text :: "env \<Rightarrow> pystr \<Rightarrow> pystr \<Rightarrow> metric option" where
  "set_by_text E pdf_path k =
     (if k \<in> set required_metrics
      then map_option pdfplumber_entry
             (first_candidate (str_lower E) k (pdfplumber_candidates E pdf_path))
      else None)"

definition ocr_runs :: "env \<Rightarrow> pystr \<Rightarrow> bool" where
  "ocr_runs E pdf_path =
     list_ex (\<lambda>k. set_by_table E pdf_path k = None \<and> set_by_text E pdf_path k = None)
       critical_metrics"

definition set_by_ocr :: "env \<Rightarrow> pystr \<Rightarrow> pystr \<Rightarrow> metric option" where
  "set_by_ocr E pdf_path k =
     (if ocr_runs E pdf_path
      then map_option ocr_entry (first_candidate (str_lower E) k (ocr_candidates E pdf_path))
      else None)"

definition by_precedence :: "env \<Rightarrow> pystr \<Rightarrow> pystr \<Rightarrow> metric option" where
  "by_precedence E pdf_path k =
     (case set_by_table E pdf_path k of
        Some e \<Rightarrow> Some e
      | None \<Rightarrow>
          (case set_by_text E pdf_path k of
             Some e \<Rightarrow> Some e
           | None \<Rightarrow> set_by_ocr E pdf_path k))"

text \<open>The keys that \<^verbatim>\<open>_normalize_metric_key\<close> can give.\<close>

definition metric_keys :: "pystr list" where
  "metric_keys = [py ''total_revenue'', py ''net_profit'', py ''operating_profit'', py ''ebitda'',
                  py ''eps'', py ''operating_margin'']"

text \<open>
  A document without tables whose text has a revenue and an EPS figure and whose OCR
  text has another EPS figure.
\<close>

definition eps_env :: env where
  "eps_env =
     \<lparr>str_lower = map ascii_lower_char,
      uni_alnum = ascii_text,
      ci_eq = (\<lambda>c d. ascii_lower_char c = ascii_lower_char d),
      has_camelot = False,
      extract_with_camelot = (\<lambda>path. []),
      extract_text_with_pdfplumber = (\<lambda>path. py ''Revenue 7 EPS 9''),
      extract_with_ocr = (\<lambda>path max_pages. py ''EPS 2'')\<rparr>"

section \<open>The metric enricher (validate\_and\_enrich\_metrics)\<close>

text \<open>
  The enricher works on JSON-like Python values, as \<^verbatim>\<open>json.loads\<close> gives them: an
  integer is an \<^verbatim>\<open>int\<close> of any size, a number with a fraction or an exponent is a
  \<^verbatim>\<open>float\<close>.  A dictionary inside such a value is a list of key-value pairs looked up
  with \<open>map_of\<close>; the metric dictionary itself, which is only read and written key by
  key, is a map from keys to values.
\<close>

datatype pyval =
    PyNone
  | PyBool bool
  | PyInt int
  | PyFloat real
  | PyStr pystr
  | PyList "pyval list"
  | PyDict "(pystr \<times> pyval) list"

text \<open>
  \<^verbatim>\<open>float\<close> of an \<^verbatim>\<open>int\<close> raises \<^verbatim>\<open>OverflowError\<close> when the integer, rounded to 53
  bits, is beyond the largest double \<^verbatim>\<open>2**1024 - 2**971\<close>, that is when its
  magnitude is \<^verbatim>\<open>2**1024 - 2**970\<close> or more.
\<close>

definition int_fits_float :: "int \<Rightarrow> bool" where
  "int_fits_float i = (\<bar>i\<bar> < 2 ^ 1024 - 2 ^ 970)"

text \<open>
  The builtin \<^verbatim>\<open>float\<close> on a value: a float is returned as it is, an integer converts
  unless it is too large, a boolean converts to 1 or 0, a string converts when Python's
  grammar of float literals accepts it (the parameter \<open>str_float\<close>, part of the Python
  runtime), everything else raises (\<open>None\<close>).
\<close>

fun to_float :: "(pystr \<Rightarrow> real option) \<Rightarrow> pyval \<Rightarrow> real option" where
  "to_float str_float (PyFloat r) = Some r"
| "to_float str_float (PyInt i) = (if int_fits_float i then Some (real_of_int i) else None)"
| "to_float str_float (PyBool b) = Some (if b then 1 else 0)"
| "to_float str_float (PyStr s) = str_float s"
| "to_float str_float v = None"

text \<open>\<^verbatim>\<open>v["value"] if isinstance(v, dict) else v\<close>; \<open>None\<close> is the \<^verbatim>\<open>KeyError\<close> of a
  dictionary without the key.\<close>

fun value_of :: "pyval \<Rightarrow> pyval option" where
  "value_of (PyDict d) = map_of d (py ''value'')"
| "value_of v = Some v"

text \<open>\<^verbatim>\<open>float(v["value"]) if isinstance(v, dict) else float(v)\<close>; \<open>None\<close> when either
  step raises.\<close>

definition operand_float :: "(pystr \<Rightarrow> real option) \<Rightarrow> pyval \<Rightarrow> real option" where
  "operand_float str_float v =
     (case value_of v of None \<Rightarrow> None | Some x \<Rightarrow> to_float str_float x)"

text \<open>\<^verbatim>\<open>{"value": x, "unit": "%", "confidence": 0.5}\<close>\<close>

definition derived_percent :: "real \<Rightarrow> pyval" where
  "derived_percent x =
     PyDict [(py ''value'', PyFloat x), (py ''unit'', PyStr (py ''%'')),
             (py ''confidence'', PyFloat (5 / 10))]"

text \<open>
  The first block of the fallback:
  \<^verbatim>\<open>
  try:
      if "operating_margin" not in enriched and "operating_profit" in enriched \
              and "total_revenue" in enriched:
          op = float(...); rev = float(...)
          if rev != 0:
              enriched["operating_margin"] = {"value": (op / rev) * 100, ...}
  except Exception:
      pass
  \<close>
\<close>

definition enrich_margin :: "(pystr \<Rightarrow> real option) \<Rightarrow> (pystr \<rightharpoonup> pyval) \<Rightarrow> (pystr \<rightharpoonup> pyval)" where
  "enrich_margin str_float enriched =
     (case (enriched (py ''operating_margin''), enriched (py ''operating_profit''),
            enriched (py ''total_revenue'')) of
        (None, Some opv, Some revv) \<Rightarrow>
          (case (operand_float str_float opv, operand_float str_float revv) of
             (Some op, Some revenue) \<Rightarrow>
               if revenue \<noteq> 0
               then enriched(py ''operating_margin'' \<mapsto> derived_percent ((op / revenue) * 100))
               else enriched
           | _ \<Rightarrow> enriched)
      | _ \<Rightarrow> enriched)"

text \<open>
  The second block: the loop over the base keys.  Reading \<^verbatim>\<open>["value"]\<close> from a
  dictionary without that key raises inside the outer \<^verbatim>\<open>try\<close> and ends the loop; a
  failing \<^verbatim>\<open>float\<close> is caught inside and the loop continues with the next key.
\<close>

fun qoq_loop ::
  "(pystr \<Rightarrow> real option) \<Rightarrow> pystr list \<Rightarrow> (pystr \<rightharpoonup> pyval) \<Rightarrow> (pystr \<rightharpoonup> pyval)" where
  "qoq_loop str_float [] enriched = enriched"
| "qoq_loop str_float (base_key # rest) enriched =
     (case (enriched base_key, enriched (base_key @ py ''_prev'')) of
        (Some b, Some pv) \<Rightarrow>
          (case (value_of b, value_of pv) of
             (Some cur_val, Some prev_val) \<Rightarrow>
               (case (to_float str_float cur_val, to_float str_float prev_val) of
                  (Some cur, Some prev) \<Rightarrow>
                    if prev \<noteq> 0
                    then qoq_loop str_float rest
                           (enriched(base_key @ py ''_qoq_pct''
                                       \<mapsto> derived_percent (((cur - prev) / \<bar>prev\<bar>) * 100)))
                    else qoq_loop str_float rest enriched
                | _ \<Rightarrow> qoq_loop str_float rest enriched)
           | _ \<Rightarrow> enriched)
      | _ \<Rightarrow> qoq_loop str_float rest enriched)"

definition base_keys :: "pystr list" where
  "base_keys = [py ''total_revenue'', py ''net_profit'', py ''ebitda'']"

text \<open>The normalisation of one entry; \<open>None\<close> when the entry is dropped.\<close>

definition clean_entry :: "(pystr \<Rightarrow> real option) \<Rightarrow> pyval \<Rightarrow> pyval option" where
  "clean_entry str_float v =
     (case (case v of PyDict d \<Rightarrow> map_option (\<lambda>x. (d, x)) (map_of d (py ''value'')) | _ \<Rightarrow> None) of
        Some (d, x) \<Rightarrow>
          Some (PyDict [(py ''value'', x),
                        (py ''unit'', case map_of d (py ''unit'') of
                                        None \<Rightarrow> PyStr INR_Cr | Some u \<Rightarrow> u),
                        (py ''confidence'', case map_of d (py ''confidence'') of
                                              None \<Rightarrow> PyFloat (5 / 10) | Some c \<Rightarrow> c)])
      | None \<Rightarrow>
          (case to_float str_float v of
             Some f \<Rightarrow> Some (PyDict [(py ''value'', PyFloat f), (py ''unit'', PyStr INR_Cr),
                                     (py ''confidence'', PyFloat (4 / 10))])
           | None \<Rightarrow> None))"

datatype enrich_result =
    Enriched_ok pyval
  | Enriched_fallback "pystr \<rightharpoonup> pyval" pystr

definition status :: "enrich_result \<Rightarrow> pystr" where
  "status r = (case r of Enriched_ok parsed \<Rightarrow> py ''ok'' | Enriched_fallback cleaned notes \<Rightarrow> py ''fallback'')"

text \<open>The cleaned metrics of a fallback result.\<close>

definition fallback_metrics :: "enrich_result \<Rightarrow> (pystr \<rightharpoonup> pyval)" where
  "fallback_metrics r =
     (case r of Enriched_ok parsed \<Rightarrow> Map.empty | Enriched_fallback cleaned notes \<Rightarrow> cleaned)"

text \<open>
  \<open>llm_parsed\<close> is the outcome of the attempt to ask the language model: the JSON value
  parsed from its reply, or \<open>None\<close> when obtaining the model, calling it or parsing the
  reply raises.  (The report text enters the prompt only.)
\<close>

definition validate_and_enrich_metrics ::
  "(pystr \<Rightarrow> real option) \<Rightarrow> pyval option \<Rightarrow> (pystr \<rightharpoonup> pyval) \<Rightarrow> enrich_result" where
  "validate_and_enrich_metrics str_float llm_parsed metrics_in =
     (case llm_parsed of
        Some parsed \<Rightarrow> Enriched_ok parsed
      | None \<Rightarrow>
          (let enriched = qoq_loop str_float base_keys (enrich_margin str_float metrics_in);
               cleaned = (\<lambda>k. case enriched k of None \<Rightarrow> None | Some v \<Rightarrow> clean_entry str_float v)
           in Enriched_fallback cleaned
                (py ''LLM unavailable or returned non-JSON; used deterministic enrichment'')))"

subsection \<open>Auxiliary notions for the proofs about the enricher\<close>

text \<open>
  The loop passes a base key without raising: not both of its entries are present, or
  neither of them is a dictionary without a value.
\<close>

definition reads_ok :: "(pystr \<rightharpoonup> pyval) \<Rightarrow> pystr \<Rightarrow> bool" where
  "reads_ok enriched k =
     (case (enriched k, enriched (k @ py ''_prev'')) of
        (Some v, Some w) \<Rightarrow> value_of v \<noteq> None \<and> value_of w \<noteq> None
      | _ \<Rightarrow> True)"

text \<open>The loop gets as far as the base key \<open>base\<close>: it passes every base key before it.\<close>

definition loop_reaches :: "(pystr \<rightharpoonup> pyval) \<Rightarrow> pystr \<Rightarrow> bool" where
  "loop_reaches ms base = list_all (reads_ok ms) (takeWhile (\<lambda>k. k \<noteq> base) base_keys)"

text \<open>What the cleaning makes of the entry the caller gave under a key.\<close>

definition cleaned_input :: "(pystr \<Rightarrow> real option) \<Rightarrow> (pystr \<rightharpoonup> pyval) \<Rightarrow> pystr \<Rightarrow> pyval option" where
  "cleaned_input str_float ms k = (case ms k of None \<Rightarrow> None | Some v \<Rightarrow> clean_entry str_float v)"

text \<open>\<^verbatim>\<open>entry["confidence"]\<close> and \<^verbatim>\<open>entry["unit"]\<close> of a dictionary entry.\<close>

definition confidence_of :: "pyval \<Rightarrow> pyval option" where
  "confidence_of v = (case v of PyDict d \<Rightarrow> map_of d (py ''confidence'') | _ \<Rightarrow> None)"

definition unit_of :: "pyval \<Rightarrow> pyval option" where
  "unit_of v = (case v of PyDict d \<Rightarrow> map_of d (py ''unit'') | _ \<Rightarrow> None)"

text \<open>A \<^verbatim>\<open>float\<close> that accepts no string, for runs whose values are numbers.\<close>

definition no_str_float :: "pystr \<Rightarrow> real option" where
  "no_str_float s = None"

text \<open>
  Metrics with a revenue, a net profit, their prior values and an operating profit;
  metrics with an operating profit and its prior value only; metrics whose revenue entry is a dictionary
  without a value, beside a net profit and its prior value; and metrics whose operating
  profit is an integer too large for a float.
\<close>

definition demo_metrics :: "pystr \<rightharpoonup> pyval" where
  "demo_metrics =
     [py ''total_revenue'' \<mapsto> PyDict [(py ''value'', PyFloat 200), (py ''unit'', PyStr INR_Cr),
                                         (py ''confidence'', PyFloat (85 / 100))],
      py ''total_revenue_prev'' \<mapsto> PyInt 160,
      py ''operating_profit'' \<mapsto> PyInt 50,
      py ''net_profit'' \<mapsto> PyFloat 30,
      py ''net_profit_prev'' \<mapsto> PyInt 20]"

definition prior_profit_metrics :: "pystr \<rightharpoonup> pyval" where
  "prior_profit_metrics =
     [py ''operating_profit'' \<mapsto> PyInt 10, py ''operating_profit_prev'' \<mapsto> PyInt 5]"

definition broken_revenue_metrics :: "pystr \<rightharpoonup> pyval" where
  "broken_revenue_metrics =
     [py ''total_revenue'' \<mapsto> PyDict [(py ''unit'', PyStr INR_Cr)],
      py ''total_revenue_prev'' \<mapsto> PyInt 1,
      py ''net_profit'' \<mapsto> PyInt 10,
      py ''net_profit_prev'' \<mapsto> PyInt 5]"

definition huge_int :: int where
  "huge_int = 10 ^ 400"

definition huge_profit_metrics :: "pystr \<rightharpoonup> pyval" where
  "huge_profit_metrics =
     [py ''operating_profit'' \<mapsto> PyInt huge_int, py ''total_revenue'' \<mapsto> PyInt 1]"

section \<open>Sentiment classification (qualitative\_analysis\_tool.py, analyze)\<close>

text \<open>Hit counts are sums of list lengths, hence natural numbers.\<close>

text \<open>
  The branch of \<^verbatim>\<open>analyze\<close> that turns the two hit counts into a score and a label:
  \<^verbatim>\<open>
  if positive_count > negative_count:
      sentiment_score = min(0.8, positive_count / max(positive_count + negative_count, 1))
      sentiment_summary = "positive" if sentiment_score > 0.6 else "cautiously optimistic"
  elif negative_count > positive_count:
      sentiment_score = -min(0.8, negative_count / max(positive_count + negative_count, 1))
      sentiment_summary = "negative" if sentiment_score < -0.6 else "cautious"
  else:
      sentiment_score = 0.0
      sentiment_summary = "neutral"
  \<close>
\<close>

definition sentiment_of_counts :: "nat \<Rightarrow> nat \<Rightarrow> real \<times> string" where
  "sentiment_of_counts positive_count negative_count =
     (if positive_count > negative_count then
        (let sentiment_score =
               min (8 / 10) (real positive_count / real (max (positive_count + negative_count) 1))
         in (sentiment_score,
             if sentiment_score > 6 / 10 then ''positive'' else ''cautiously optimistic''))
      else if negative_count > positive_count then
        (let sentiment_score =
               - min (8 / 10) (real negative_count / real (max (positive_count + negative_count) 1))
         in (sentiment_score,
             if sentiment_score < - (6 / 10) then ''negative'' else ''cautious''))
      else (0, ''neutral''))"

text \<open>The classifier as the specification words it (no guard on the denominator).\<close>

definition sentiment_spec :: "nat \<Rightarrow> nat \<Rightarrow> real \<times> string" where
  "sentiment_spec p n =
     (if p > n then
        (min (8 / 10) (real p / (real p + real n)),
         if min (8 / 10) (real p / (real p + real n)) > 6 / 10
         then ''positive'' else ''cautiously optimistic'')
      else if n > p then
        (- min (8 / 10) (real n / (real p + real n)),
         if - min (8 / 10) (real n / (real p + real n)) < - (6 / 10)
         then ''negative'' else ''cautious'')
      else (0, ''neutral''))"

section \<open>The qualitative analyzer (app/tools/qualitative\_analysis\_tool.py)\<close>

type_synonym vec = "real list"

text \<open>An embedder is an object with a method \<^verbatim>\<open>encode\<close>: from a list of texts to a list
  of vectors; \<open>None\<close> when the call raises.\<close>

type_synonym embedder = "pystr list \<Rightarrow> vec list option"

subsection \<open>The deterministic fallback embedder\<close>

text \<open>
  \<open>digest t j\<close> is byte \<open>j\<close> of \<^verbatim>\<open>hashlib.sha256(t.encode("utf-8")).digest()\<close>, for
  \<open>j < 32\<close>; the hash function is part of the Python runtime and is a parameter.  The
  digest has 32 bytes, so \<^verbatim>\<open>h[i % len(h)]\<close> is \<open>digest t (i mod 32)\<close>.
\<close>

definition raw_vector :: "(pystr \<Rightarrow> nat \<Rightarrow> 8 word) \<Rightarrow> nat \<Rightarrow> pystr \<Rightarrow> vec" where
  "raw_vector digest dimension t =
     map (\<lambda>i. (real (unat (digest t (i mod 32))) / 255) * 2 - 1) [0..<dimension]"

definition l2_norm :: "vec \<Rightarrow> real" where
  "l2_norm v = sqrt (sum_list (map (\<lambda>x. x * x) v))"

definition fake_encode_one :: "(pystr \<Rightarrow> nat \<Rightarrow> 8 word) \<Rightarrow> nat \<Rightarrow> pystr \<Rightarrow> vec" where
  "fake_encode_one digest dimension t =
     (let v = raw_vector digest dimension t; norm = l2_norm v
      in if norm > 0 then map (\<lambda>x. x / norm) v else v)"

text \<open>\<^verbatim>\<open>_FakeEmbedder(dim).encode\<close> on a list of texts; on a single string the source
  returns the first (and only) vector of the list.\<close>

definition fake_encode :: "(pystr \<Rightarrow> nat \<Rightarrow> 8 word) \<Rightarrow> nat \<Rightarrow> pystr list \<Rightarrow> vec list" where
  "fake_encode digest dimension texts = map (fake_encode_one digest dimension) texts"

definition fake_embedder :: "(pystr \<Rightarrow> nat \<Rightarrow> 8 word) \<Rightarrow> nat \<Rightarrow> embedder" where
  "fake_embedder digest dimension = (\<lambda>texts. Some (fake_encode digest dimension texts))"

subsection \<open>The environment of the analyzer\<close>

text \<open>
  What the tool obtains from outside the repository:
  \<^item> \<open>read_file path\<close> is the content of the file, or \<open>None\<close> when opening or reading
    raises;
  \<^item> \<open>sha256\<close> is the digest function described above;
  \<^item> \<open>sentence_transformer\<close> is the embedder of the sentence-transformers library,
    or \<open>None\<close> when importing or constructing it raises;
  \<^item> \<open>np_array\<close> is \<^verbatim>\<open>numpy.array\<close> (followed by the conversion to 32-bit floats) on a
    list of vectors, which may raise; the field is \<open>None\<close> when numpy cannot be
    imported; the array is seen as the list of its rows;
  \<^item> \<open>faiss_add\<close> builds an exact L2 index from an array, which may raise; the field is
    \<open>None\<close> when faiss cannot be imported; an index is seen as the list of vectors it
    holds;
  \<^item> \<open>faiss_search idx q k\<close> is \<^verbatim>\<open>idx.search(q, k)\<close>: the first row of the indices and of
    the distances, or \<open>None\<close> when the call raises;
  \<^item> \<open>np_distances embs q\<close> is \<^verbatim>\<open>numpy.linalg.norm(embs - q, axis=1)\<close>, which may raise;
  \<^item> \<open>np_argsort\<close> is \<^verbatim>\<open>numpy.argsort\<close>.
\<close>

record libs =
  read_file :: "pystr \<Rightarrow> pystr option"
  sha256 :: "pystr \<Rightarrow> nat \<Rightarrow> 8 word"
  sentence_transformer :: "embedder option"
  np_array :: "(vec list \<Rightarrow> vec list option) option"
  faiss_add :: "(vec list \<Rightarrow> vec list option) option"
  faiss_search :: "vec list \<Rightarrow> vec list \<Rightarrow> int \<Rightarrow> (int list \<times> real list) option"
  np_distances :: "vec list \<Rightarrow> vec list \<Rightarrow> real list option"
  np_argsort :: "real list \<Rightarrow> nat list"

subsection \<open>The state of the tool\<close>

record transcript =
  t_name :: "pystr option"
  t_local_path :: "pystr option"

record chunk =
  c_source :: pystr
  c_chunk_id :: pystr
  c_text :: pystr

text \<open>\<^verbatim>\<open>self._embeddings\<close>: a numpy array, or a list of lists of floats.\<close>

datatype emb_store = Np_array "vec list" | Py_lists "vec list"

fun rows :: "emb_store \<Rightarrow> vec list" where
  "rows (Np_array a) = a"
| "rows (Py_lists l) = l"

text \<open>\<open>embeddings = None\<close>: the attribute \<^verbatim>\<open>_embeddings\<close> has not been set.\<close>

record tool =
  embedder :: "embedder option"
  index :: "vec list option"
  chunks :: "chunk list"
  embeddings :: "emb_store option"

text \<open>\<^verbatim>\<open>QualitativeAnalysisTool(embedder=e)\<close>; \<open>force_fake\<close> says that the environment
  variable \<^verbatim>\<open>FORCE_FAKE_EMBEDDER\<close> is one of 1, true, yes.\<close>

definition new_tool :: "libs \<Rightarrow> bool \<Rightarrow> embedder option \<Rightarrow> tool" where
  "new_tool L force_fake e =
     \<lparr>embedder = (if e = None \<and> force_fake then Some (fake_embedder (sha256 L) 64) else e),
      index = None, chunks = [], embeddings = None\<rparr>"

subsection \<open>Chunking and indexing\<close>

text \<open>\<^verbatim>\<open>text.split()\<close>: the maximal runs of non-whitespace characters.\<close>

fun split_words :: "pystr \<Rightarrow> pystr \<Rightarrow> pystr list" where
  "split_words w [] = (if w = [] then [] else [w])"
| "split_words w (c # cs) =
     (if is_space c then (if w = [] then split_words [] cs else w # split_words [] cs)
      else split_words (w @ [c]) cs)"

text \<open>\<^verbatim>\<open>" ".join(ws)\<close>\<close>

fun join_space :: "pystr list \<Rightarrow> pystr" where
  "join_space [] = []"
| "join_space [w] = w"
| "join_space (w # ws) = w @ [32] @ join_space ws"

text \<open>\<^verbatim>\<open>s.strip()\<close>\<close>

definition strip :: "pystr \<Rightarrow> pystr" where
  "strip s = rev (dropWhile is_space (rev (dropWhile is_space s)))"

definition chunk_text :: "pystr \<Rightarrow> nat \<Rightarrow> pystr list" where
  "chunk_text txt chunk_words =
     (let ws = split_words [] txt
      in filter (\<lambda>ch. strip ch \<noteq> [])
           (map (\<lambda>i. join_space (take chunk_words (drop i ws)))
                (filter (\<lambda>i. i mod chunk_words = 0) [0..<length ws])))"

text \<open>\<^verbatim>\<open>str(i)\<close> for a natural number.\<close>

fun digits_of :: "nat \<Rightarrow> nat \<Rightarrow> pystr" where
  "digits_of 0 n = []"
| "digits_of (Suc fuel) n = (if n < 10 then [48 + n] else digits_of fuel (n div 10) @ [48 + n mod 10])"

definition str_of_nat :: "nat \<Rightarrow> pystr" where
  "str_of_nat n = digits_of (Suc n) n"

text \<open>\<^verbatim>\<open>transcript.get("name", "unknown")\<close>\<close>

definition name_of :: "transcript \<Rightarrow> pystr" where
  "name_of t = (case t_name t of None \<Rightarrow> py ''unknown'' | Some n \<Rightarrow> n)"

text \<open>The chunks of one transcript; none when it has no path or cannot be read.\<close>

definition transcript_chunks :: "libs \<Rightarrow> transcript \<Rightarrow> chunk list" where
  "transcript_chunks L t =
     (case t_local_path t of
        None \<Rightarrow> []
      | Some path \<Rightarrow>
          if path = [] then []
          else (case read_file L path of
                  None \<Rightarrow> []
                | Some txt \<Rightarrow>
                    map (\<lambda>(i, ch). \<lparr>c_source = name_of t,
                                    c_chunk_id = name_of t @ py ''_chunk_'' @ str_of_nat i,
                                    c_text = ch\<rparr>)
                        (enumerate 0 (chunk_text txt 300))))"

text \<open>The embedder in use: the one of the tool, else sentence-transformers, else the
  fallback.\<close>

definition ensure_embedder :: "libs \<Rightarrow> tool \<Rightarrow> embedder" where
  "ensure_embedder L T =
     (case embedder T of
        Some e \<Rightarrow> e
      | None \<Rightarrow> (case sentence_transformer L of
                   Some e \<Rightarrow> e
                 | None \<Rightarrow> fake_embedder (sha256 L) 64))"

definition index_transcripts :: "libs \<Rightarrow> tool \<Rightarrow> transcript list \<Rightarrow> bool \<times> tool" where
  "index_transcripts L T transcripts =
     (let T1 = T\<lparr>chunks := concat (map (transcript_chunks L) transcripts)\<rparr>;
          texts = map c_text (chunks T1)
      in if texts = [] then (False, T1)
         else
           (let T2 = T1\<lparr>embedder := Some (ensure_embedder L T1)\<rparr>
            in case ensure_embedder L T1 texts of
                 None \<Rightarrow> (False, T2)
               | Some embs \<Rightarrow>
                   (case (case np_array L of None \<Rightarrow> None | Some mk \<Rightarrow> mk embs) of
                      None \<Rightarrow> (True, T2\<lparr>embeddings := Some (Py_lists embs), index := None\<rparr>)
                    | Some emb_array \<Rightarrow>
                        (case faiss_add L of
                           None \<Rightarrow> (True, T2\<lparr>embeddings := Some (Np_array emb_array),
                                               index := None\<rparr>)
                         | Some add \<Rightarrow>
                             (case add emb_array of
                                None \<Rightarrow> (False, T2\<lparr>index := Some []\<rparr>)
                              | Some idx \<Rightarrow> (True, T2\<lparr>index := Some idx\<rparr>))))))"

subsection \<open>Retrieval\<close>

record hit =
  h_chunk_id :: pystr
  h_source :: pystr
  h_text :: pystr
  h_score :: real

definition mk_hit :: "chunk \<Rightarrow> real \<Rightarrow> hit" where
  "mk_hit ch score =
     \<lparr>h_chunk_id = c_chunk_id ch, h_source = c_source ch, h_text = take 600 (c_text ch),
      h_score = score\<rparr>"

text \<open>\<^verbatim>\<open>xs[:k]\<close> for an integer \<open>k\<close>: a negative \<open>k\<close> counts from the end.\<close>

definition slice_to :: "int \<Rightarrow> 'a list \<Rightarrow> 'a list" where
  "slice_to k xs = (if 0 \<le> k then take (nat k) xs else take (length xs - nat (- k)) xs)"

text \<open>\<^verbatim>\<open>xs[i]\<close> for an integer \<open>i\<close>; \<open>None\<close> is the \<^verbatim>\<open>IndexError\<close>.\<close>

definition py_index :: "'a list \<Rightarrow> int \<Rightarrow> 'a option" where
  "py_index xs i =
     (if 0 \<le> i \<and> i < int (length xs) then Some (xs ! nat i)
      else if - int (length xs) \<le> i \<and> i < 0 then Some (xs ! nat (int (length xs) + i))
      else None)"

text \<open>
  The loop over the answer of the vector index:
  \<^verbatim>\<open>
  for idx, distance in zip(indices[0], distances[0]):
      if idx < len(self.chunks):
          chunk = self.chunks[idx]
          results.append({..., "score": float(distance)})
  \<close>
\<close>

fun faiss_results :: "chunk list \<Rightarrow> (int \<times> real) list \<Rightarrow> hit list option" where
  "faiss_results cs [] = Some []"
| "faiss_results cs ((idx, distance) # rest) =
     (if idx < int (length cs) then
        (case py_index cs idx of
           None \<Rightarrow> None
         | Some ch \<Rightarrow> map_option (\<lambda>hs. mk_hit ch distance # hs) (faiss_results cs rest))
      else faiss_results cs rest)"

text \<open>The branch for a vector index; every exception up to the search gives the empty
  list.\<close>

definition retrieve_faiss ::
  "libs \<Rightarrow> embedder \<Rightarrow> vec list \<Rightarrow> chunk list \<Rightarrow> pystr \<Rightarrow> int \<Rightarrow> hit list option" where
  "retrieve_faiss L emb idx cs query top_k =
     (case emb [query] of
        None \<Rightarrow> Some []
      | Some query_embedding \<Rightarrow>
          (case (case np_array L of None \<Rightarrow> None | Some mk \<Rightarrow> mk query_embedding) of
             None \<Rightarrow> Some []
           | Some q_arr \<Rightarrow>
               (case faiss_search L idx q_arr (min top_k (int (length cs))) of
                  None \<Rightarrow> Some []
                | Some (indices, distances) \<Rightarrow> faiss_results cs (zip indices distances))))"

text \<open>The results for a list of chunk numbers; \<open>None\<close> when a number is out of range
  (\<^verbatim>\<open>IndexError\<close>).\<close>

fun scan_results :: "chunk list \<Rightarrow> real list \<Rightarrow> nat list \<Rightarrow> hit list option" where
  "scan_results cs dists [] = Some []"
| "scan_results cs dists (i # rest) =
     (if i < length cs \<and> i < length dists
      then map_option (\<lambda>hs. mk_hit (cs ! i) (dists ! i) # hs) (scan_results cs dists rest)
      else None)"

text \<open>The numpy branch; \<open>None\<close> when anything in its \<^verbatim>\<open>try\<close> block raises.\<close>

definition retrieve_numpy ::
  "libs \<Rightarrow> embedder \<Rightarrow> vec list \<Rightarrow> chunk list \<Rightarrow> pystr \<Rightarrow> int \<Rightarrow> hit list option" where
  "retrieve_numpy L emb embs cs query top_k =
     (case np_array L of
        None \<Rightarrow> None
      | Some mk \<Rightarrow>
          (case emb [query] of
             None \<Rightarrow> None
           | Some query_embedding \<Rightarrow>
               (case mk query_embedding of
                  None \<Rightarrow> None
                | Some q_emb \<Rightarrow>
                    (case np_distances L embs q_emb of
                       None \<Rightarrow> None
                     | Some dists \<Rightarrow>
                         scan_results cs dists
                           (slice_to (min top_k (int (length cs))) (np_argsort L dists))))))"

text \<open>
  The distance of the pure Python computation:
  \<^verbatim>\<open>
  s = 0.0
  for a, b in zip(e, q_emb):
      d = a - b
      s += d * d
  dists.append(s ** 0.5)
  \<close>
\<close>

definition euclid :: "vec \<Rightarrow> vec \<Rightarrow> real" where
  "euclid e q = sqrt (foldl (\<lambda>s (a, b). s + (a - b) * (a - b)) 0 (zip e q))"

text \<open>
  The pure Python branch, taken when the numpy branch raises.  \<open>None\<close> when encoding
  the query raises or a chunk number is out of range; neither is caught.  The sort is
  \<^verbatim>\<open>sorted(range(len(dists)), key=lambda i: dists[i])\<close>, which is stable.
\<close>

definition retrieve_python ::
  "embedder \<Rightarrow> vec list \<Rightarrow> chunk list \<Rightarrow> pystr \<Rightarrow> int \<Rightarrow> hit list option" where
  "retrieve_python emb embs cs query top_k =
     (case emb [query] of
        None \<Rightarrow> None
      | Some q_emb_raw \<Rightarrow>
          (let q_emb = (case q_emb_raw of [] \<Rightarrow> [] | v # _ \<Rightarrow> v);
               dists = map (\<lambda>e. euclid e q_emb) embs;
               idxs = slice_to (min top_k (int (length cs)))
                        (sort_key (\<lambda>i. dists ! i) [0..<length dists])
           in scan_results cs dists idxs))"

text \<open>
  \<^verbatim>\<open>retrieve\<close>.  The result is \<open>None\<close> when the call raises.  The keyword matching at
  the end of the source is not reached: the method returns before it when there is
  neither an index nor stored embeddings, and each of the two branches returns.
\<close>

definition retrieve :: "libs \<Rightarrow> tool \<Rightarrow> pystr \<Rightarrow> int \<Rightarrow> hit list option \<times> tool" where
  "retrieve L T query top_k =
     (if (index T = None \<and> embeddings T = None) \<or> chunks T = [] then (Some [], T)
      else
        (let emb = ensure_embedder L T;
             T1 = T\<lparr>embedder := Some emb\<rparr>
         in case index T of
              Some idx \<Rightarrow> (retrieve_faiss L emb idx (chunks T) query top_k, T1)
            | None \<Rightarrow>
                (case embeddings T of
                   None \<Rightarrow> (Some [], T1)
                 | Some store \<Rightarrow>
                     (case retrieve_numpy L emb (rows store) (chunks T) query top_k of
                        Some results \<Rightarrow> (Some results, T1)
                      | None \<Rightarrow> (retrieve_python emb (rows store) (chunks T) query top_k, T1)))))"

subsection \<open>The analysis\<close>

record theme_result =
  th_theme :: pystr
  th_count :: nat
  th_examples :: "hit list"

record risk =
  rk_name :: pystr
  rk_evidence :: "pystr list"

record summary =
  qs_tool :: pystr
  qs_themes :: "theme_result list"
  qs_sentiment_score :: real
  qs_sentiment_summary :: pystr
  qs_forward_guidance :: "hit list"
  qs_risks :: "risk list"

definition insufficient_data :: summary where
  "insufficient_data =
     \<lparr>qs_tool = py ''QualitativeAnalysisTool'', qs_themes = [],
      qs_sentiment_score = 0, qs_sentiment_summary = py ''insufficient_data'',
      qs_forward_guidance = [], qs_risks = []\<rparr>"

definition theme_queries :: "(pystr \<times> pystr) list" where
  "theme_queries =
     [(py ''demand'', py ''demand, growth, digital transformation, revenue growth, market demand''),
      (py ''attrition'', py ''attrition, employee turnover, resignations, hiring, talent, retention''),
      (py ''guidance'', py ''guidance, outlook, expect, forecast, projection, next quarter''),
      (py ''margins'', py ''margin, profitability, costs, efficiency, operating margin''),
      (py ''deals'', py ''deals, pipeline, bookings, wins, contracts, clients'')]"

definition positive_queries :: "pystr list" where
  "positive_queries = [py ''strong performance'', py ''growth'', py ''optimistic'', py ''positive'']"

definition negative_queries :: "pystr list" where
  "negative_queries = [py ''challenges'', py ''headwinds'', py ''concerns'', py ''pressure'']"

definition risk_themes :: "pystr list" where
  "risk_themes = [py ''attrition'', py ''competition'', py ''macro'', py ''regulation'']"

text \<open>
  The loop over the themes:
  \<^verbatim>\<open>
  for theme_name, query in theme_queries.items():
      results = self.retrieve(query, top_k=5)
      if results:
          themes.append({"theme": theme_name, "count": len(results), "examples": results[:3]})
  \<close>
  The state of the tool is passed along; \<open>None\<close> when a retrieval raises.
\<close>

fun theme_loop ::
  "libs \<Rightarrow> tool \<Rightarrow> (pystr \<times> pystr) list \<Rightarrow> theme_result list option \<times> tool" where
  "theme_loop L T [] = (Some [], T)"
| "theme_loop L T ((theme_name, query) # rest) =
     (case retrieve L T query 5 of
        (None, T1) \<Rightarrow> (None, T1)
      | (Some results, T1) \<Rightarrow>
          (case theme_loop L T1 rest of
             (None, T2) \<Rightarrow> (None, T2)
           | (Some themes, T2) \<Rightarrow>
               (Some (if results \<noteq> []
                      then \<lparr>th_theme = theme_name, th_count = length results,
                            th_examples = take 3 results\<rparr> # themes
                      else themes), T2)))"

text \<open>\<^verbatim>\<open>for query in queries: count += len(self.retrieve(query, top_k=3))\<close>\<close>

fun count_loop :: "libs \<Rightarrow> tool \<Rightarrow> pystr list \<Rightarrow> nat option \<times> tool" where
  "count_loop L T [] = (Some 0, T)"
| "count_loop L T (query # rest) =
     (case retrieve L T query 3 of
        (None, T1) \<Rightarrow> (None, T1)
      | (Some results, T1) \<Rightarrow>
          (case count_loop L T1 rest of
             (None, T2) \<Rightarrow> (None, T2)
           | (Some n, T2) \<Rightarrow> (Some (length results + n), T2)))"

text \<open>
  \<^verbatim>\<open>
  for theme_name in risk_themes:
      theme_data = next((t for t in themes if t["theme"] == theme_name), None)
      if theme_data and theme_data["count"] > 0:
          risks.append({"name": theme_name,
                        "evidence": [ex["chunk_id"] for ex in theme_data["examples"]]})
  \<close>
\<close>

definition risks_of :: "theme_result list \<Rightarrow> risk list" where
  "risks_of themes =
     List.map_filter
       (\<lambda>theme_name.
          case find (\<lambda>t. th_theme t = theme_name) themes of
            None \<Rightarrow> None
          | Some theme_data \<Rightarrow>
              if th_count theme_data > 0
              then Some \<lparr>rk_name = theme_name,
                         rk_evidence = map h_chunk_id (th_examples theme_data)\<rparr>
              else None)
       risk_themes"

definition analyze :: "libs \<Rightarrow> tool \<Rightarrow> transcript list \<Rightarrow> summary option \<times> tool" where
  "analyze L T transcripts =
     (case index_transcripts L T transcripts of
        (False, T0) \<Rightarrow> (Some insufficient_data, T0)
      | (True, T0) \<Rightarrow>
     (case theme_loop L T0 theme_queries of
        (None, T1) \<Rightarrow> (None, T1)
      | (Some themes, T1) \<Rightarrow>
     (case count_loop L T1 positive_queries of
        (None, T2) \<Rightarrow> (None, T2)
      | (Some positive_count, T2) \<Rightarrow>
     (case count_loop L T2 negative_queries of
        (None, T3) \<Rightarrow> (None, T3)
      | (Some negative_count, T3) \<Rightarrow>
     (case retrieve L T3
             (py ''guidance, outlook, expect, forecast, next quarter, full year'') 5 of
        (None, T4) \<Rightarrow> (None, T4)
      | (Some forward_guidance_results, T4) \<Rightarrow>
          (Some \<lparr>qs_tool = py ''QualitativeAnalysisTool'',
                 qs_themes = themes,
                 qs_sentiment_score = fst (sentiment_of_counts positive_count negative_count),
                 qs_sentiment_summary =
                   py (snd (sentiment_of_counts positive_count negative_count)),
                 qs_forward_guidance = forward_guidance_results,
                 qs_risks = risks_of themes\<rparr>, T4))))))"

subsection \<open>Concrete environments for the analyzer\<close>

text \<open>
  One readable transcript, an embedder that maps a text to its length, numpy and faiss
  present, and a vector index that answers every search with chunk 0 at distance 0;
  variants in which the embedder raises and in which building the index raises; and
  transcripts that cannot be read.
\<close>

definition demo_libs :: libs where
  "demo_libs =
     \<lparr>read_file = (\<lambda>path. if path = py ''call.txt''
                            then Some (py ''attrition fell  and demand grew'') else None),
      sha256 = (\<lambda>t j. 0),
      sentence_transformer = Some (\<lambda>texts. Some (map (\<lambda>t. [real (length t)]) texts)),
      np_array = Some Some,
      faiss_add = Some Some,
      faiss_search = (\<lambda>idx q k. Some ([0], [0])),
      np_distances = (\<lambda>embs q. None),
      np_argsort = (\<lambda>dists. [])\<rparr>"

definition demo_transcripts :: "transcript list" where
  "demo_transcripts = [\<lparr>t_name = Some (py ''call''), t_local_path = Some (py ''call.txt'')\<rparr>]"

definition missing_transcripts :: "transcript list" where
  "missing_transcripts =
     [\<lparr>t_name = Some (py ''q1''), t_local_path = Some (py ''missing.txt'')\<rparr>,
      \<lparr>t_name = Some (py ''q2''), t_local_path = None\<rparr>]"

definition demo_tool :: tool where
  "demo_tool = new_tool demo_libs False None"

definition demo_hit :: hit where
  "demo_hit = \<lparr>h_chunk_id = py ''call_chunk_0'', h_source = py ''call'',
               h_text = py ''attrition fell and demand grew'', h_score = 0\<rparr>"

definition no_encode_libs :: libs where
  "no_encode_libs = demo_libs\<lparr>sentence_transformer := Some (\<lambda>texts. None)\<rparr>"

definition no_faiss_add_libs :: libs where
  "no_faiss_add_libs = demo_libs\<lparr>faiss_add := Some (\<lambda>a. None)\<rparr>"

subsection \<open>What retrieval promises, and what it needs of the libraries\<close>


text \<open>Ascending distance, ties in the order of the chunk numbers.\<close>

definition ranked :: "(nat \<Rightarrow> real) \<Rightarrow> nat list \<Rightarrow> bool" where
  "ranked d idxs = sorted_wrt (\<lambda>i j. d i < d j \<or> (d i = d j \<and> i < j)) idxs"



text \<open>
  The order among equal distances is not part of that: \<^verbatim>\<open>np.argsort\<close> and
  \<^verbatim>\<open>index.search\<close> give equal distances in the order of the positions only when the
  library in use does so.
\<close>

definition stable_libs :: "libs \<Rightarrow> bool" where
  "stable_libs L =
     ((\<forall>ds. ranked ((!) ds) (np_argsort L ds))
      \<and> (\<forall>idx q k ids ds. faiss_search L idx q k = Some (ids, ds)
            \<longrightarrow> (\<exists>d. ds = map (\<lambda>i. d (nat i)) ids \<and> ranked d (map nat ids))))"

text \<open>
  Three transcripts of one chunk each.  In the first environment numpy and faiss are
  missing, so retrieval scans the stored vectors in Python; the embedder maps a text to
  its length, so the first and the third chunk are equally far from a query of two
  characters.  In the second environment numpy and faiss are present and the embedder
  raises on the query \<^verbatim>\<open>boom\<close>.
\<close>

definition scan_libs :: libs where
  "scan_libs =
     \<lparr>read_file = (\<lambda>path. if path = py ''a.txt'' then Some (py ''growth'')
                          else if path = py ''b.txt'' then Some (py ''demand up'')
                          else if path = py ''c.txt'' then Some (py ''margin'')
                          else None),
      sha256 = (\<lambda>t j. 0),
      sentence_transformer = Some (\<lambda>texts. Some (map (\<lambda>t. [real (length t)]) texts)),
      np_array = None,
      faiss_add = None,
      faiss_search = (\<lambda>idx q k. Some (map int [0..<nat k], replicate (nat k) 0)),
      np_distances = (\<lambda>embs q. None),
      np_argsort = (\<lambda>ds. sort_key ((!) ds) [0..<length ds])\<rparr>"

definition three_transcripts :: "transcript list" where
  "three_transcripts =
     [\<lparr>t_name = Some (py ''a''), t_local_path = Some (py ''a.txt'')\<rparr>,
      \<lparr>t_name = Some (py ''b''), t_local_path = Some (py ''b.txt'')\<rparr>,
      \<lparr>t_name = Some (py ''c''), t_local_path = Some (py ''c.txt'')\<rparr>]"

definition scan_tool :: tool where
  "scan_tool = snd (index_transcripts scan_libs (new_tool scan_libs False None) three_transcripts)"



section \<open>Theorems\<close>

subsection \<open>Evaluating the patterns\<close>

text \<open>The equation of the star unfolds without end on a symbolic text; it is applied on
  request only.\<close>

declare m.simps(8) [simp del]

lemma times_re_num [simp]:
  "times_re 1 r = Seq r Eps"
  "times_re 2 r = Seq r (Seq r Eps)"
  "times_re 3 r = Seq r (Seq r (Seq r Eps))"
  by (simp_all add: numeral_2_eq_2 numeral_3_eq_3)

lemma upto_re_num [simp]:
  "upto_re 1 r = Opt (Seq r Eps)"
  "upto_re 2 r = Opt (Seq r (Opt (Seq r Eps)))"
  by (simp_all add: numeral_2_eq_2)

lemmas parse_eval =
  parse_inr_number_def re_search_def pattern1_def pattern2_def pattern3_def pattern4_def
  plus_re_def rep_re_def py_def rupee_def comma_def dot_def is_digit_def is_space_def
  is_word_def is_num_char_def digits_val_def py_float_def float_of_group_def
  float_of_group_plain_def replace_comma_def at_boundary_def consumed_def m.simps(8)

lemma parse_rupee_example:
  "parse_inr_number W (rupee # py '' 12,345.67 Cr'') = Some (1234567 / 100)"
  by (simp add: parse_eval)

lemma parse_indian_example: "parse_inr_number W (py ''1,23,456'') = Some 123456"
  by (simp add: parse_eval)

lemma parse_western_example: "parse_inr_number W (py ''123,456'') = Some 123456"
  by (simp add: parse_eval)

lemma parse_plain_example: "parse_inr_number W (py ''9876.54'') = Some (987654 / 100)"
  by (simp add: parse_eval)

lemma parse_empty_example: "parse_inr_number W (py []) = None"
  by (simp add: parse_eval)

lemma parse_no_number_example: "parse_inr_number W (py ''no numbers here'') = None"
  by (simp add: parse_eval)

subsection \<open>The first pattern finds the currency-marked number\<close>

lemma star_cls_unfold:
  "m (Star (Cls f)) (p, s) cs K =
     (case s of
        [] \<Rightarrow> K (p, []) cs
      | x # xs \<Rightarrow>
          if f x then (case m (Star (Cls f)) (x # p, xs) cs K of Some r \<Rightarrow> Some r | None \<Rightarrow> K (p, s) cs)
          else K (p, s) cs)"
  by (subst m.simps) (simp split: list.splits)

lemma star_cls_greedy:
  "K (rev (takeWhile f s) @ p, dropWhile f s) cs = Some r \<Longrightarrow> m (Star (Cls f)) (p, s) cs K = Some r"
proof (induction s arbitrary: p)
  case Nil
  then show ?case by (subst star_cls_unfold) simp
next
  case (Cons x xs)
  show ?case
  proof (cases "f x")
    case True
    with Cons.prems have "K (rev (takeWhile f xs) @ x # p, dropWhile f xs) cs = Some r" by simp
    then have "m (Star (Cls f)) (x # p, xs) cs K = Some r" by (rule Cons.IH)
    with True show ?thesis by (subst star_cls_unfold) simp
  next
    case False
    with Cons.prems show ?thesis by (subst star_cls_unfold) simp
  qed
qed

lemma star_cls_fail:
  assumes "\<And>p' s' c. s' = [] \<or> f (hd s') \<or> \<not> g (hd s') \<Longrightarrow> K (p', s') c = None"
    and "dropWhile f s = [] \<or> \<not> g (hd (dropWhile f s))"
  shows "m (Star (Cls f)) (p, s) cs K = None"
  using assms(2)
proof (induction s arbitrary: p)
  case Nil
  show ?case by (subst star_cls_unfold) (simp add: assms(1))
next
  case (Cons x xs)
  show ?case
  proof (cases "f x")
    case True
    with Cons.prems have "m (Star (Cls f)) (x # p, xs) cs K = None" by (intro Cons.IH) simp
    with True show ?thesis by (subst star_cls_unfold) (simp add: assms(1))
  next
    case False
    with Cons.prems have "\<not> g x" by simp
    with False show ?thesis by (subst star_cls_unfold) (simp add: assms(1))
  qed
qed

lemma no_group_caps:
  "no_group r \<Longrightarrow> m r st cs K = Some x \<Longrightarrow> \<exists>st'. K st' cs = Some x"
proof (induction r st cs K arbitrary: x rule: m.induct)
  case (8 a st cs k)
  from "8.prems" have ng: "no_group a" by simp
  let ?K = "\<lambda>st' cs'. if length (snd st') < length (snd st) then m (Star a) st' cs' k else None"
  show ?case
  proof (cases "m a st cs ?K")
    case None
    with "8.prems"(2) have "k st cs = Some x" by (subst (asm) m.simps) simp
    then show ?thesis by blast
  next
    case (Some y)
    with "8.prems"(2) have xy: "y = x" by (subst (asm) m.simps) simp
    from "8.IH"(2)[OF ng Some] obtain st' where "?K st' cs = Some y" by blast
    then have lt: "length (snd st') < length (snd st)" and "m (Star a) st' cs k = Some y"
      by (auto split: if_splits)
    from "8.IH"(1)[OF lt "8.prems"(1) this(2)] xy show ?thesis by simp
  qed
qed (auto split: list.splits if_splits option.splits)


lemma space_not_num: "is_space c \<Longrightarrow> \<not> is_num_char c"
  by (auto simp: is_space_def is_num_char_def is_digit_def comma_def dot_def)

lemma no_group_unit: "no_group unit_re"
  by (simp add: unit_re_def py_def)

lemma tail_k_keeps_group1: "\<exists>x. tail_k st c = Some x \<and> x 1 = c 1"
proof -
  let ?O = "\<lambda>st' cs'. m (Opt (Group 2 unit_re)) st' cs' (\<lambda>st cs. Some cs)"
  have opt: "\<exists>x. ?O st' c = Some x \<and> x 1 = c 1" for st'
  proof (cases "m (Group 2 unit_re) st' c (\<lambda>st cs. Some cs)")
    case None
    then show ?thesis by simp
  next
    case (Some y)
    then have "m unit_re st' c (\<lambda>st'' cs'. Some (cs'(2 \<mapsto> consumed st' st''))) = Some y"
      by simp
    from no_group_caps[OF no_group_unit this] obtain st'' where "y = c(2 \<mapsto> consumed st' st'')"
      by auto
    with Some show ?thesis by simp
  qed
  have "tail_k st c = m (Star (Cls is_space)) st c ?O"
    by (simp add: tail_k_def)
  moreover have "m (Star (Cls is_space)) st c ?O \<noteq> None"
    using opt[of st] by (subst m.simps(8)) (auto split: option.splits)
  ultimately obtain x where x: "m (Star (Cls is_space)) st c ?O = Some x" "tail_k st c = Some x"
    by auto
  have "no_group (Star (Cls is_space))" by simp
  from no_group_caps[OF this x(1)] obtain st' where "?O st' c = Some x" by blast
  with opt[of st'] have "x 1 = c 1" by auto
  with x show ?thesis by blast
qed

lemma num_k_fail: "s = [] \<or> \<not> is_num_char (hd s) \<Longrightarrow> num_k (p, s) c = None"
  by (cases s) (auto simp: num_k_def plus_re_def)

lemma length_takeWhile_diff:
  "Suc (length xs) - length (dropWhile f xs) = Suc (length (takeWhile f xs))"
proof -
  have "length xs = length (takeWhile f xs) + length (dropWhile f xs)"
    by (metis length_append takeWhile_dropWhile_id)
  then show ?thesis by simp
qed

lemma num_k_match:
  assumes "is_num_char x"
  shows "\<exists>r. num_k (p, x # xs) c = Some r \<and> r 1 = Some (x # takeWhile is_num_char xs)"
proof -
  let ?K = "\<lambda>st' cs'. tail_k st' (cs'(1 \<mapsto> consumed (p, x # xs) st'))"
  have eq: "num_k (p, x # xs) c = m (Star (Cls is_num_char)) (x # p, xs) c ?K"
    using assms by (simp add: num_k_def plus_re_def tail_k_def)
  have "take (length (takeWhile is_num_char xs)) xs = takeWhile is_num_char xs"
    by (metis append_eq_conv_conj takeWhile_dropWhile_id)
  then have cons: "consumed (p, x # xs) (q, dropWhile is_num_char xs) = x # takeWhile is_num_char xs" for q
    by (simp add: consumed_def length_takeWhile_diff)
  obtain r where r: "?K (rev (takeWhile is_num_char xs) @ x # p, dropWhile is_num_char xs) c = Some r"
      "r 1 = Some (x # takeWhile is_num_char xs)"
    using tail_k_keeps_group1[of "(rev (takeWhile is_num_char xs) @ x # p, dropWhile is_num_char xs)"
        "c(1 \<mapsto> x # takeWhile is_num_char xs)"]
    by (auto simp: cons)
  from star_cls_greedy[of ?K is_num_char xs "x # p" c r, OF r(1)] eq r(2) show ?thesis by simp
qed

lemma pattern1_unfold:
  "m pattern1 (p, c # cs) e (\<lambda>st cs. Some cs) =
     (if c = rupee then m (Star (Cls is_space)) (c # p, cs) e num_k else None)"
  by (simp add: pattern1_def num_k_def unit_re_def)

lemma pattern1_at:
  "(takeWhile is_num_char (dropWhile is_space cs) = [] \<or> c \<noteq> rupee
      \<longrightarrow> m pattern1 (p, c # cs) e (\<lambda>st cs. Some cs) = None)
   \<and> (takeWhile is_num_char (dropWhile is_space cs) \<noteq> [] \<and> c = rupee
      \<longrightarrow> (\<exists>r. m pattern1 (p, c # cs) e (\<lambda>st cs. Some cs) = Some r
               \<and> r 1 = Some (takeWhile is_num_char (dropWhile is_space cs))))"
proof (intro conjI impI)
  assume a: "takeWhile is_num_char (dropWhile is_space cs) = [] \<or> c \<noteq> rupee"
  show "m pattern1 (p, c # cs) e (\<lambda>st cs. Some cs) = None"
  proof (cases "c = rupee")
    case False
    then show ?thesis by (simp add: pattern1_unfold)
  next
    case True
    with a have "dropWhile is_space cs = [] \<or> \<not> is_num_char (hd (dropWhile is_space cs))"
      by (cases "dropWhile is_space cs") (auto split: if_splits)
    then have "m (Star (Cls is_space)) (c # p, cs) e num_k = None"
      by (intro star_cls_fail[where g = is_num_char]) (auto intro: num_k_fail dest: space_not_num)
    with True show ?thesis by (simp add: pattern1_unfold)
  qed
next
  assume a: "takeWhile is_num_char (dropWhile is_space cs) \<noteq> [] \<and> c = rupee"
  then obtain x xs where d: "dropWhile is_space cs = x # xs" and x: "is_num_char x"
    by (cases "dropWhile is_space cs") (auto split: if_splits)
  from num_k_match[OF x, of "rev (takeWhile is_space cs) @ c # p" xs e]
  obtain r where r: "num_k (rev (takeWhile is_space cs) @ c # p, x # xs) e = Some r"
     "r 1 = Some (x # takeWhile is_num_char xs)" by blast
  from r(1) d have "m (Star (Cls is_space)) (c # p, cs) e num_k = Some r"
    by (intro star_cls_greedy) simp
  with a r(2) d x show "\<exists>r. m pattern1 (p, c # cs) e (\<lambda>st cs. Some cs) = Some r
               \<and> r 1 = Some (takeWhile is_num_char (dropWhile is_space cs))"
    by (simp add: pattern1_unfold)
qed

lemma pattern1_at_end: "m pattern1 (p, []) e (\<lambda>st cs. Some cs) = None"
  by (simp add: pattern1_def)

lemma search_pattern1:
  "(currency_marked t = None \<longrightarrow> search_from pattern1 p t = None)
   \<and> (\<forall>num. currency_marked t = Some num \<longrightarrow>
         (\<exists>r. search_from pattern1 p t = Some r \<and> r 1 = Some num))"
proof (induction t arbitrary: p)
  case Nil
  show ?case by (simp add: pattern1_at_end)
next
  case (Cons c cs)
  show ?case
  proof (cases "c = rupee \<and> takeWhile is_num_char (dropWhile is_space cs) \<noteq> []")
    case True
    with pattern1_at[of cs c p "Map.empty"] show ?thesis by auto
  next
    case False
    with pattern1_at[of cs c p "Map.empty"]
    have "m pattern1 (p, c # cs) Map.empty (\<lambda>st cs. Some cs) = None" by auto
    with False Cons.IH[of "c # p"] show ?thesis by auto
  qed
qed

subsection \<open>The stages of the cascade only append\<close>

lemma insert_candidates_append:
  "\<exists>new. fst (insert_candidates lower g en cs ms n) = ms @ new
      \<and> (\<forall>x\<in>set new. \<exists>c. snd x = en c)"
proof (induction cs arbitrary: ms n)
  case Nil
  show ?case by simp
next
  case (Cons c cs)
  show ?case
  proof (cases "normalize_metric_key lower (rm_label c)")
    case None
    with Cons.IH[of ms n] show ?thesis by simp
  next
    case (Some key)
    show ?thesis
    proof (cases "g key \<and> map_of ms key = None")
      case True
      from Cons.IH[of "ms @ [(key, en c)]" "n + 1"] obtain new where
        "fst (insert_candidates lower g en cs (ms @ [(key, en c)]) (n + 1)) = (ms @ [(key, en c)]) @ new"
        "\<forall>x\<in>set new. \<exists>c. snd x = en c" by blast
      with Some True show ?thesis
        by (intro exI[of _ "(key, en c) # new"]) auto
    next
      case False
      with Some Cons.IH[of ms n] show ?thesis by auto
    qed
  qed
qed

lemma insert_candidates_distinct:
  "distinct (map fst ms) \<Longrightarrow> distinct (map fst (fst (insert_candidates lower g en cs ms n)))"
proof (induction cs arbitrary: ms n)
  case Nil
  then show ?case by simp
next
  case (Cons c cs)
  show ?case
  proof (cases "normalize_metric_key lower (rm_label c)")
    case None
    with Cons show ?thesis by simp
  next
    case (Some key)
    show ?thesis
    proof (cases "g key \<and> map_of ms key = None")
      case True
      then have "key \<notin> fst ` set ms" by (simp add: map_of_eq_None_iff)
      with Cons.prems have "distinct (map fst (ms @ [(key, en c)]))" by simp
      from Cons.IH[OF this] Some True show ?thesis by simp
    next
      case False
      with Some Cons show ?thesis by auto
    qed
  qed
qed

lemma table_stage_ok: "stage_ok (\<lambda>s. \<exists>pg. s = Camelot pg) st (table_stage E p st)"
proof -
  obtain new where "fst (insert_candidates (str_lower E) (\<lambda>key. True) camelot_entry
                          (extract_with_camelot E p) (st_metrics st) 0) = st_metrics st @ new"
    "\<forall>x\<in>set new. \<exists>c. snd x = camelot_entry c"
    using insert_candidates_append by blast
  moreover have "distinct (map fst (st_metrics st)) \<Longrightarrow>
    distinct (map fst (fst (insert_candidates (str_lower E) (\<lambda>key. True) camelot_entry
                          (extract_with_camelot E p) (st_metrics st) 0)))"
    by (rule insert_candidates_distinct)
  ultimately show ?thesis
    unfolding stage_ok_def table_stage_def
    by (auto simp: Let_def split_beta camelot_entry_def)
qed

lemma text_stage_ok: "stage_ok (\<lambda>s. s = Pdfplumber) st (text_stage E p st)"
proof -
  let ?g = "\<lambda>key. key \<in> set (filter (\<lambda>k. map_of (st_metrics st) k = None) required_metrics)"
  let ?cs = "parse_metrics_from_text E (extract_text_with_pdfplumber E p)"
  obtain new where "fst (insert_candidates (str_lower E) ?g pdfplumber_entry ?cs (st_metrics st) 0)
       = st_metrics st @ new"
    "\<forall>x\<in>set new. \<exists>c. snd x = pdfplumber_entry c"
    using insert_candidates_append by blast
  moreover have "distinct (map fst (st_metrics st)) \<Longrightarrow>
    distinct (map fst (fst (insert_candidates (str_lower E) ?g pdfplumber_entry ?cs (st_metrics st) 0)))"
    by (rule insert_candidates_distinct)
  ultimately show ?thesis
    unfolding stage_ok_def text_stage_def
    by (auto simp: Let_def split_beta pdfplumber_entry_def)
qed

lemma ocr_stage_ok: "stage_ok (\<lambda>s. s = Ocr) st (ocr_stage E p st)"
proof -
  let ?cs = "parse_metrics_from_text E (extract_with_ocr E p 5)"
  obtain new where "fst (insert_candidates (str_lower E) (\<lambda>key. True) ocr_entry ?cs (st_metrics st) 0)
       = st_metrics st @ new"
    "\<forall>x\<in>set new. \<exists>c. snd x = ocr_entry c"
    using insert_candidates_append by blast
  moreover have "distinct (map fst (st_metrics st)) \<Longrightarrow>
    distinct (map fst (fst (insert_candidates (str_lower E) (\<lambda>key. True) ocr_entry ?cs (st_metrics st) 0)))"
    by (rule insert_candidates_distinct)
  ultimately show ?thesis
    unfolding stage_ok_def ocr_stage_def
    by (auto simp: Let_def split_beta ocr_entry_def)
qed


lemma initial_metrics: "st_metrics initial_state = []"
  by (simp add: initial_state_def)

lemma cascade_decomposition:
  "\<exists>tab tx ocr.
      st_metrics (after_table E p) = tab
    \<and> st_metrics (after_text E p) = tab @ tx
    \<and> st_metrics (after_ocr E p) = tab @ tx @ ocr
    \<and> distinct (map fst (tab @ tx @ ocr))
    \<and> (\<forall>x\<in>set tab. \<exists>pg. m_source (snd x) = Camelot pg)
    \<and> (\<forall>x\<in>set tx. m_source (snd x) = Pdfplumber)
    \<and> (\<forall>x\<in>set ocr. m_source (snd x) = Ocr)"
proof -
  from table_stage_ok[of initial_state E p] obtain tab where
    t: "st_metrics (after_table E p) = tab" "\<forall>x\<in>set tab. \<exists>pg. m_source (snd x) = Camelot pg"
       "distinct (map fst tab)"
    by (auto simp: stage_ok_def after_table_def initial_metrics)
  from text_stage_ok[of "after_table E p" E p] t obtain tx where
    x: "st_metrics (after_text E p) = tab @ tx" "\<forall>x\<in>set tx. m_source (snd x) = Pdfplumber"
       "distinct (map fst (tab @ tx))"
    by (auto simp: stage_ok_def after_text_def)
  from ocr_stage_ok[of "after_text E p" E p] x obtain ocr where
    o: "st_metrics (after_ocr E p) = (tab @ tx) @ ocr" "\<forall>x\<in>set ocr. m_source (snd x) = Ocr"
       "distinct (map fst ((tab @ tx) @ ocr))"
    by (auto simp: stage_ok_def after_ocr_def)
  from t x o show ?thesis by (intro exI[of _ tab] exI[of _ tx] exI[of _ ocr]) simp
qed

lemma map_of_append_left: "map_of xs k = Some e \<Longrightarrow> map_of (xs @ ys) k = Some e"
  by (simp add: map_add_Some_iff)

lemma map_of_distinct_mem:
  "distinct (map fst xs) \<Longrightarrow> map_of xs k = Some e \<longleftrightarrow> (k, e) \<in> set xs"
  by (auto dest: map_of_SomeD)

lemma table_stage_no_ocr:
  "ocr_attempted (st_log (table_stage E p st)) = ocr_attempted (st_log st)
   \<and> (OcrBackend \<in> set (st_calls (table_stage E p st))) = (OcrBackend \<in> set (st_calls st))"
  by (simp add: table_stage_def Let_def split_beta)

lemma text_stage_no_ocr:
  "ocr_attempted (st_log (text_stage E p st)) = ocr_attempted (st_log st)
   \<and> (OcrBackend \<in> set (st_calls (text_stage E p st))) = (OcrBackend \<in> set (st_calls st))"
  by (simp add: text_stage_def Let_def split_beta)

lemma after_text_no_ocr:
  "\<not> ocr_attempted (st_log (after_text E p))" "OcrBackend \<notin> set (st_calls (after_text E p))"
  by (simp_all add: after_text_def after_table_def text_stage_no_ocr table_stage_no_ocr
        initial_state_def)

lemma ocr_stage_attempted:
  "ocr_attempted (st_log (ocr_stage E p st))
     = (ocr_attempted (st_log st) \<or> list_ex (\<lambda>k. map_of (st_metrics st) k = None) critical_metrics)"
  "(OcrBackend \<in> set (st_calls (ocr_stage E p st)))
     = (OcrBackend \<in> set (st_calls st) \<or> list_ex (\<lambda>k. map_of (st_metrics st) k = None) critical_metrics)"
  by (simp_all add: ocr_stage_def Let_def split_beta)

subsection \<open>A concrete run of the cascade\<close>

lemmas cascade_eval =
  after_table_def after_text_def after_ocr_def table_stage_def text_stage_def ocr_stage_def
  initial_state_def demo_env_def demo_env_no_text_def normalize_metric_key_def
  parse_metrics_from_text_def labels_def List.map_filter_def required_metrics_def
  critical_metrics_def ascii_lower_char_def ascii_text_def camelot_entry_def pdfplumber_entry_def
  ocr_entry_def INR_Cr_def demo_revenue_def Let_def

lemma demo_after_table:
  "st_metrics (after_table demo_env p) = [(py ''total_revenue'', demo_revenue)]"
  by (simp add: cascade_eval py_def)

lemma demo_after_text_revenue:
  "map_of (st_metrics (after_text demo_env p)) (py ''total_revenue'') = Some demo_revenue"
  by (simp add: cascade_eval parse_eval)

lemma ocr_demo:
  "backend_calls (extract_from_single_report demo_env_no_text p meta)
     = [CamelotBackend, PdfplumberBackend, OcrBackend]
   \<and> ocr_attempted (extraction_log (extract_from_single_report demo_env_no_text p meta))
   \<and> map (\<lambda>(k, e). (k, m_value e, m_source e))
         (metrics (extract_from_single_report demo_env_no_text p meta))
       = [(py ''total_revenue'', 100, Camelot (Some 1)), (py ''net_profit'', 3, Ocr),
          (py ''eps'', 2, Ocr)]"
  by (simp add: extract_from_single_report_def cascade_eval parse_eval)

subsection \<open>The deterministic enrichment\<close>

lemma value_of_derived [simp]: "value_of (derived_percent x) = Some (PyFloat x)"
  by (simp add: derived_percent_def)

lemma clean_derived [simp]: "clean_entry sf (derived_percent x) = Some (derived_percent x)"
  by (simp add: clean_entry_def derived_percent_def py_def)

lemma qoq_loop_other:
  "\<forall>k\<in>set keys. x \<noteq> k @ py ''_qoq_pct'' \<Longrightarrow> qoq_loop sf keys enriched x = enriched x"
proof (induction keys arbitrary: enriched)
  case Nil
  show ?case by simp
next
  case (Cons k keys)
  then have x: "x \<noteq> k @ py ''_qoq_pct''" and r: "\<forall>k\<in>set keys. x \<noteq> k @ py ''_qoq_pct''"
    by simp_all
  have ih: "qoq_loop sf keys e x = e x" for e by (rule Cons.IH[OF r])
  show ?case
    using x by (simp add: ih split: option.splits)
qed

lemma reads_ok_cong:
  "e k = e' k \<Longrightarrow> e (k @ py ''_prev'') = e' (k @ py ''_prev'') \<Longrightarrow> reads_ok e k = reads_ok e' k"
  by (simp add: reads_ok_def)

lemma qoq_loop_hit:
  assumes "base \<in> set keys" "distinct keys"
    and "list_all (\<lambda>k. list_all (\<lambda>k'. k @ py ''_qoq_pct'' \<noteq> k' \<and> k @ py ''_qoq_pct'' \<noteq> k' @ py ''_prev'') ks) keys"
    and "set keys \<subseteq> set ks"
    and "list_all (reads_ok enriched) (takeWhile (\<lambda>k. k \<noteq> base) keys)"
    and "enriched base = Some a" "enriched (base @ py ''_prev'') = Some b"
    and "operand_float sf a = Some cur" "operand_float sf b = Some prv" "prv \<noteq> 0"
  shows "qoq_loop sf keys enriched (base @ py ''_qoq_pct'')
           = Some (derived_percent (((cur - prv) / \<bar>prv\<bar>) * 100))"
  using assms
proof (induction keys arbitrary: enriched)
  case Nil
  then show ?case by simp
next
  case (Cons k keys)
  show ?case
  proof (cases "k = base")
    case True
    from Cons.prems(2) True have "\<forall>k'\<in>set keys. base @ py ''_qoq_pct'' \<noteq> k' @ py ''_qoq_pct''"
      by auto
    then have other: "qoq_loop sf keys e (base @ py ''_qoq_pct'') = e (base @ py ''_qoq_pct'')" for e
      by (rule qoq_loop_other)
    from Cons.prems(6-10) True show ?thesis
      by (auto simp: other operand_float_def split: option.splits)
  next
    case False
    with Cons.prems(1) have mem: "base \<in> set keys" by simp
    from Cons.prems(2) have dist: "distinct keys" by simp
    from Cons.prems(3) have sep: "list_all (\<lambda>k. list_all (\<lambda>k'. k @ py ''_qoq_pct'' \<noteq> k' \<and> k @ py ''_qoq_pct'' \<noteq> k' @ py ''_prev'') ks) keys"
      by simp
    from Cons.prems(4) have sub: "set keys \<subseteq> set ks" by simp
    from Cons.prems(3,4) have kq: "\<forall>k'\<in>set keys. k @ py ''_qoq_pct'' \<noteq> k' \<and> k @ py ''_qoq_pct'' \<noteq> k' @ py ''_prev''"
      by (auto simp: list_all_iff)
    from Cons.prems(5) False have rk: "reads_ok enriched k"
      and rest: "list_all (reads_ok enriched) (takeWhile (\<lambda>k. k \<noteq> base) keys)"
      by simp_all
    have step: "qoq_loop sf keys e (base @ py ''_qoq_pct'')
           = Some (derived_percent (((cur - prv) / \<bar>prv\<bar>) * 100))"
      if "e = enriched \<or> (\<exists>v. e = enriched(k @ py ''_qoq_pct'' \<mapsto> v))" for e
    proof -
      from that kq have same: "e k' = enriched k'" "e (k' @ py ''_prev'') = enriched (k' @ py ''_prev'')"
        if "k' \<in> set keys" for k'
        using that by auto
      from same[OF mem] have eb: "e base = enriched base"
        "e (base @ py ''_prev'') = enriched (base @ py ''_prev'')" .
      have "reads_ok e k' = reads_ok enriched k'" if "k' \<in> set keys" for k'
        using same[OF that] by (rule reads_ok_cong)
      moreover have "set (takeWhile (\<lambda>k. k \<noteq> base) keys) \<subseteq> set keys"
        by (auto dest: set_takeWhileD)
      ultimately have "list_all (reads_ok e) (takeWhile (\<lambda>k. k \<noteq> base) keys)"
        using rest by (auto simp: list_all_iff)
      from Cons.IH[OF mem dist sep sub this] eb Cons.prems(6-10) show ?thesis by simp
    qed
    show ?thesis
      using rk step by (auto simp: reads_ok_def split: option.splits)
  qed
qed

lemma enrich_margin_other:
  "x \<noteq> py ''operating_margin'' \<Longrightarrow> enrich_margin sf ms x = ms x"
  by (simp add: enrich_margin_def split: option.splits)

lemma enrich_margin_present:
  "ms (py ''operating_margin'') = Some v \<Longrightarrow> enrich_margin sf ms = ms"
  by (simp add: enrich_margin_def)

lemma base_keys_separate:
  "list_all (\<lambda>k. list_all (\<lambda>k'. k @ py ''_qoq_pct'' \<noteq> k' \<and> k @ py ''_qoq_pct'' \<noteq> k' @ py ''_prev'')
      base_keys) base_keys"
  "distinct base_keys"
  "\<forall>k\<in>set base_keys. py ''operating_margin'' \<noteq> k @ py ''_qoq_pct''"
  "\<forall>k\<in>set base_keys. k \<noteq> py ''operating_margin'' \<and> k @ py ''_prev'' \<noteq> py ''operating_margin''"
  by (simp_all add: base_keys_def py_def)

lemma qoq_key_not_margin: "base @ py ''_qoq_pct'' \<noteq> py ''operating_margin''"
proof
  assume "base @ py ''_qoq_pct'' = py ''operating_margin''"
  then have "last (base @ py ''_qoq_pct'') = last (py ''operating_margin'')" by simp
  then show False by (simp add: py_def)
qed

lemma loop_reaches_margin:
  "loop_reaches (enrich_margin sf ms) base = loop_reaches ms base"
proof -
  have "reads_ok (enrich_margin sf ms) k = reads_ok ms k" if "k \<in> set base_keys" for k
    using that base_keys_separate(4) by (intro reads_ok_cong enrich_margin_other) auto
  moreover have "set (takeWhile (\<lambda>k. k \<noteq> base) base_keys) \<subseteq> set base_keys"
    by (auto dest: set_takeWhileD)
  ultimately show ?thesis
    unfolding loop_reaches_def list_all_iff by blast
qed

lemma fallback_metrics_unfold:
  "fallback_metrics (validate_and_enrich_metrics sf None ms) k
     = (case qoq_loop sf base_keys (enrich_margin sf ms) k of
          None \<Rightarrow> None | Some v \<Rightarrow> clean_entry sf v)"
  by (simp add: validate_and_enrich_metrics_def fallback_metrics_def Let_def)

lemma demo_metrics_lookup:
  "demo_metrics (py ''operating_margin'') = None"
  "demo_metrics (py ''operating_profit'') = Some (PyInt 50)"
  "demo_metrics (py ''total_revenue'')
     = Some (PyDict [(py ''value'', PyFloat 200), (py ''unit'', PyStr INR_Cr),
                     (py ''confidence'', PyFloat (85 / 100))])"
  "demo_metrics (py ''total_revenue'' @ py ''_prev'') = Some (PyInt 160)"
  "demo_metrics (py ''operating_profit'' @ py ''_qoq_pct'') = None"
  "demo_metrics (py ''net_profit'') = Some (PyFloat 30)"
  "demo_metrics (py ''net_profit'' @ py ''_prev'') = Some (PyInt 20)"
  by (simp_all add: demo_metrics_def py_def)

lemma demo_loop_reaches: "loop_reaches demo_metrics (py ''net_profit'')"
  by (simp add: loop_reaches_def base_keys_def reads_ok_def demo_metrics_def py_def)

lemma small_fits: "int_fits_float 50" "int_fits_float 20" "int_fits_float 10" "int_fits_float 5"
  "int_fits_float 1"
  by (simp_all add: int_fits_float_def)

lemma huge_does_not_fit: "\<not> int_fits_float huge_int"
  by (simp add: int_fits_float_def huge_int_def)

lemma prior_profit_result:
  "fallback_metrics (validate_and_enrich_metrics no_str_float None prior_profit_metrics)
     = [py ''operating_profit'' \<mapsto> PyDict [(py ''value'', PyFloat 10), (py ''unit'', PyStr INR_Cr),
                                            (py ''confidence'', PyFloat (4 / 10))],
        py ''operating_profit_prev'' \<mapsto> PyDict [(py ''value'', PyFloat 5), (py ''unit'', PyStr INR_Cr),
                                                 (py ''confidence'', PyFloat (4 / 10))]]"
proof (rule ext)
  fix k
  have e: "qoq_loop no_str_float base_keys (enrich_margin no_str_float prior_profit_metrics)
             = prior_profit_metrics"
    by (simp add: enrich_margin_def base_keys_def prior_profit_metrics_def py_def)
  show "fallback_metrics (validate_and_enrich_metrics no_str_float None prior_profit_metrics) k
     = [py ''operating_profit'' \<mapsto> PyDict [(py ''value'', PyFloat 10), (py ''unit'', PyStr INR_Cr),
                                            (py ''confidence'', PyFloat (4 / 10))],
        py ''operating_profit_prev'' \<mapsto> PyDict [(py ''value'', PyFloat 5), (py ''unit'', PyStr INR_Cr),
                                                 (py ''confidence'', PyFloat (4 / 10))]] k"
    by (simp add: fallback_metrics_unfold e)
       (simp add: prior_profit_metrics_def clean_entry_def small_fits)
qed

lemma broken_revenue_result:
  "fallback_metrics (validate_and_enrich_metrics no_str_float None broken_revenue_metrics)
     = [py ''total_revenue_prev'' \<mapsto> PyDict [(py ''value'', PyFloat 1), (py ''unit'', PyStr INR_Cr),
                                              (py ''confidence'', PyFloat (4 / 10))],
        py ''net_profit'' \<mapsto> PyDict [(py ''value'', PyFloat 10), (py ''unit'', PyStr INR_Cr),
                                      (py ''confidence'', PyFloat (4 / 10))],
        py ''net_profit_prev'' \<mapsto> PyDict [(py ''value'', PyFloat 5), (py ''unit'', PyStr INR_Cr),
                                           (py ''confidence'', PyFloat (4 / 10))]]"
proof (rule ext)
  fix k
  have e: "qoq_loop no_str_float base_keys (enrich_margin no_str_float broken_revenue_metrics)
             = broken_revenue_metrics"
    by (simp add: enrich_margin_def base_keys_def broken_revenue_metrics_def py_def)
  show "fallback_metrics (validate_and_enrich_metrics no_str_float None broken_revenue_metrics) k
     = [py ''total_revenue_prev'' \<mapsto> PyDict [(py ''value'', PyFloat 1), (py ''unit'', PyStr INR_Cr),
                                              (py ''confidence'', PyFloat (4 / 10))],
        py ''net_profit'' \<mapsto> PyDict [(py ''value'', PyFloat 10), (py ''unit'', PyStr INR_Cr),
                                      (py ''confidence'', PyFloat (4 / 10))],
        py ''net_profit_prev'' \<mapsto> PyDict [(py ''value'', PyFloat 5), (py ''unit'', PyStr INR_Cr),
                                           (py ''confidence'', PyFloat (4 / 10))]] k"
    by (simp add: fallback_metrics_unfold e)
       (simp add: broken_revenue_metrics_def clean_entry_def small_fits py_def)
qed

lemma huge_profit_result:
  "fallback_metrics (validate_and_enrich_metrics no_str_float None huge_profit_metrics)
     = [py ''total_revenue'' \<mapsto> PyDict [(py ''value'', PyFloat 1), (py ''unit'', PyStr INR_Cr),
                                         (py ''confidence'', PyFloat (4 / 10))]]"
proof (rule ext)
  fix k
  have e: "qoq_loop no_str_float base_keys (enrich_margin no_str_float huge_profit_metrics)
             = huge_profit_metrics"
    by (simp add: enrich_margin_def base_keys_def huge_profit_metrics_def py_def
          operand_float_def huge_does_not_fit)
  show "fallback_metrics (validate_and_enrich_metrics no_str_float None huge_profit_metrics) k
     = [py ''total_revenue'' \<mapsto> PyDict [(py ''value'', PyFloat 1), (py ''unit'', PyStr INR_Cr),
                                         (py ''confidence'', PyFloat (4 / 10))]] k"
    by (simp add: fallback_metrics_unfold e)
       (simp add: huge_profit_metrics_def clean_entry_def small_fits huge_does_not_fit py_def)
qed

subsection \<open>The final entry of a key, from the candidates\<close>

lemma first_candidate_simps:
  "first_candidate lower k [] = None"
  "first_candidate lower k (c # cs) =
     (if normalize_metric_key lower (rm_label c) = Some k then Some c
      else first_candidate lower k cs)"
  by (simp_all add: first_candidate_def)

lemma insert_candidates_lookup:
  "map_of (fst (insert_candidates lower g en cs ms n)) k =
     (case map_of ms k of
        Some e \<Rightarrow> Some e
      | None \<Rightarrow> if g k then map_option en (first_candidate lower k cs) else None)"
proof (induction cs arbitrary: ms n)
  case Nil
  show ?case by (simp add: first_candidate_simps split: option.splits)
next
  case (Cons c cs)
  show ?case
  proof (cases "normalize_metric_key lower (rm_label c)")
    case None
    with Cons.IH[of ms n] show ?thesis by (simp add: first_candidate_simps split: option.splits)
  next
    case (Some key)
    show ?thesis
    proof (cases "g key \<and> map_of ms key = None")
      case True
      have "map_of (fst (insert_candidates lower g en (c # cs) ms n)) k
              = map_of (fst (insert_candidates lower g en cs (ms @ [(key, en c)]) (n + 1))) k"
        using Some True by simp
      also have "\<dots> = (case map_of (ms @ [(key, en c)]) k of
                          Some e \<Rightarrow> Some e
                        | None \<Rightarrow> if g k then map_option en (first_candidate lower k cs) else None)"
        by (rule Cons.IH)
      also have "\<dots> = (case map_of ms k of
                          Some e \<Rightarrow> Some e
                        | None \<Rightarrow> if g k then map_option en (first_candidate lower k (c # cs))
                                  else None)"
        using Some True by (auto simp: first_candidate_simps map_add_def split: option.splits)
      finally show ?thesis .
    next
      case False
      have "map_of (fst (insert_candidates lower g en (c # cs) ms n)) k
              = map_of (fst (insert_candidates lower g en cs ms n)) k"
        using Some False by auto
      also have "\<dots> = (case map_of ms k of
                          Some e \<Rightarrow> Some e
                        | None \<Rightarrow> if g k then map_option en (first_candidate lower k cs) else None)"
        by (rule Cons.IH)
      also have "\<dots> = (case map_of ms k of
                          Some e \<Rightarrow> Some e
                        | None \<Rightarrow> if g k then map_option en (first_candidate lower k (c # cs))
                                  else None)"
        using Some False by (auto simp: first_candidate_simps split: option.splits)
      finally show ?thesis .
    qed
  qed
qed

lemma parse_metrics_from_empty: "parse_metrics_from_text E [] = []"
  by (simp add: parse_metrics_from_text_def labels_def List.map_filter_def py_def)

lemma table_lookup: "map_of (st_metrics (after_table E p)) k = set_by_table E p k"
  by (simp add: after_table_def table_stage_def Let_def split_beta initial_state_def
        insert_candidates_lookup set_by_table_def camelot_candidates_def first_candidate_simps)

lemma text_lookup:
  "map_of (st_metrics (after_text E p)) k
     = (case set_by_table E p k of Some e \<Rightarrow> Some e | None \<Rightarrow> set_by_text E p k)"
proof (cases "set_by_table E p k")
  case (Some e)
  then have "map_of (st_metrics (after_table E p)) k = Some e" by (simp add: table_lookup)
  then show ?thesis
    using Some
    by (simp add: after_text_def text_stage_def Let_def split_beta insert_candidates_lookup)
next
  case None
  then have a: "map_of (st_metrics (after_table E p)) k = None" by (simp add: table_lookup)
  let ?missing = "filter (\<lambda>k. map_of (st_metrics (after_table E p)) k = None) required_metrics"
  have g: "k \<in> set ?missing \<longleftrightarrow> k \<in> set required_metrics" using a by simp
  show ?thesis
  proof (cases "?missing = []")
    case True
    then have "k \<notin> set required_metrics" using g by (metis empty_iff empty_set)
    with True a None show ?thesis
      by (simp add: after_text_def text_stage_def Let_def set_by_text_def)
  next
    case False
    show ?thesis
    proof (cases "extract_text_with_pdfplumber E p = []")
      case True
      then have "pdfplumber_candidates E p = []"
        by (simp add: pdfplumber_candidates_def parse_metrics_from_empty)
      with True False a None show ?thesis
        by (simp add: after_text_def text_stage_def Let_def set_by_text_def first_candidate_simps)
    next
      case nonempty: False
      from False nonempty have "st_metrics (after_text E p)
         = fst (insert_candidates (str_lower E) (\<lambda>key. key \<in> set ?missing) pdfplumber_entry
                  (pdfplumber_candidates E p) (st_metrics (after_table E p)) 0)"
        by (simp add: after_text_def text_stage_def Let_def split_beta pdfplumber_candidates_def)
      then show ?thesis
        using a None g by (simp add: insert_candidates_lookup set_by_text_def)
    qed
  qed
qed

lemma ocr_runs_iff:
  "list_ex (\<lambda>k. map_of (st_metrics (after_text E p)) k = None) critical_metrics = ocr_runs E p"
  by (auto simp: ocr_runs_def text_lookup list_ex_iff split: option.splits)

lemma final_lookup: "map_of (st_metrics (after_ocr E p)) k = by_precedence E p k"
proof (cases "ocr_runs E p")
  case False
  then have "st_metrics (after_ocr E p) = st_metrics (after_text E p)"
    by (simp add: after_ocr_def ocr_stage_def ocr_runs_iff)
  with False show ?thesis
    by (simp add: text_lookup by_precedence_def set_by_ocr_def split: option.splits)
next
  case True
  show ?thesis
  proof (cases "extract_with_ocr E p 5 = []")
    case e: True
    then have "ocr_candidates E p = []"
      by (simp add: ocr_candidates_def parse_metrics_from_empty)
    moreover from e True have "st_metrics (after_ocr E p) = st_metrics (after_text E p)"
      by (simp add: after_ocr_def ocr_stage_def ocr_runs_iff Let_def)
    ultimately show ?thesis
      using True
      by (simp add: text_lookup by_precedence_def set_by_ocr_def first_candidate_simps
            split: option.splits)
  next
    case False
    with True have "st_metrics (after_ocr E p)
       = fst (insert_candidates (str_lower E) (\<lambda>key. True) ocr_entry (ocr_candidates E p)
                (st_metrics (after_text E p)) 0)"
      by (simp add: after_ocr_def ocr_stage_def ocr_runs_iff Let_def split_beta
            ocr_candidates_def)
    then show ?thesis
      using True
      by (simp add: insert_candidates_lookup text_lookup by_precedence_def set_by_ocr_def
            split: option.splits)
  qed
qed

lemma normalize_metric_key_range:
  "normalize_metric_key lower label = Some k \<Longrightarrow> k \<in> set metric_keys"
  by (auto simp: normalize_metric_key_def Let_def metric_keys_def split: if_splits)

lemma first_candidate_key:
  "first_candidate lower k cs = Some c \<Longrightarrow> normalize_metric_key lower (rm_label c) = Some k"
  by (auto simp: first_candidate_def find_Some_iff)

lemma by_precedence_key: "by_precedence E p k = Some e \<Longrightarrow> k \<in> set metric_keys"
  by (auto simp: by_precedence_def set_by_table_def set_by_text_def set_by_ocr_def
        split: option.splits if_splits
        dest!: first_candidate_key normalize_metric_key_range)

lemma metric_keys_not_derived:
  "k \<in> set metric_keys \<Longrightarrow> \<forall>b\<in>set base_keys. k \<noteq> b @ py ''_qoq_pct''"
  by (auto simp: metric_keys_def base_keys_def py_def)

lemma derivations_keep_metric_keys:
  assumes "k \<in> set metric_keys" "ms k = Some v"
  shows "qoq_loop sf base_keys (enrich_margin sf ms) k = Some v"
proof -
  have "qoq_loop sf base_keys (enrich_margin sf ms) k = enrich_margin sf ms k"
    by (rule qoq_loop_other) (rule metric_keys_not_derived[OF assms(1)])
  also have "\<dots> = ms k"
  proof (cases "k = py ''operating_margin''")
    case True
    with assms(2) show ?thesis by (simp add: enrich_margin_present)
  next
    case False
    then show ?thesis by (rule enrich_margin_other)
  qed
  finally show ?thesis using assms(2) by simp
qed

lemma eps_candidates:
  "map (\<lambda>c. (rm_label c, rm_value c)) (pdfplumber_candidates eps_env p)
     = [(py ''Revenue'', 7), (py ''EPS'', 9)]"
  "map (\<lambda>c. (rm_label c, rm_value c)) (ocr_candidates eps_env p) = [(py ''EPS'', 2)]"
  by (simp_all add: pdfplumber_candidates_def ocr_candidates_def eps_env_def cascade_eval parse_eval)

lemma eps_normalized:
  "normalize_metric_key (str_lower eps_env) (py ''EPS'') = Some (py ''eps'')"
  by (simp add: eps_env_def cascade_eval py_def)

lemma eps_run:
  "metrics (extract_from_single_report eps_env p meta)
     = [(py ''total_revenue'',
         \<lparr>m_value = 7, m_unit = INR_Cr, m_confidence = 65 / 100, m_source = Pdfplumber,
          m_label = py ''Revenue''\<rparr>),
        (py ''eps'',
         \<lparr>m_value = 2, m_unit = INR_Cr, m_confidence = 45 / 100, m_source = Ocr,
          m_label = py ''EPS''\<rparr>)]"
  by (simp add: extract_from_single_report_def eps_env_def cascade_eval parse_eval)

subsection \<open>The analyzer\<close>

lemma theme_loop_names:
  "theme_loop L T qs = (Some themes, T') \<Longrightarrow> set (map th_theme themes) \<subseteq> fst ` set qs"
proof (induction qs arbitrary: T themes T')
  case Nil
  then show ?case by simp
next
  case (Cons q qs)
  obtain theme_name query where q: "q = (theme_name, query)" by (cases q)
  from Cons.prems q obtain results T1 themes0 where
    r: "retrieve L T query 5 = (Some results, T1)"
    and l: "theme_loop L T1 qs = (Some themes0, T')"
    and t: "themes = (if results \<noteq> []
                      then \<lparr>th_theme = theme_name, th_count = length results,
                            th_examples = take 3 results\<rparr> # themes0
                      else themes0)"
    by (auto split: prod.splits option.splits)
  from Cons.IH[OF l] have "set (map th_theme themes0) \<subseteq> fst ` set qs" .
  with t q show ?case by auto
qed

lemma find_absent:
  "name \<notin> set (map th_theme themes) \<Longrightarrow> find (\<lambda>t. th_theme t = name) themes = None"
  by (induction themes) auto

lemma risks_of_attrition:
  assumes "set (map th_theme themes) \<subseteq> fst ` set theme_queries"
  shows "length (risks_of themes) \<le> 1 \<and> list_all (\<lambda>r. rk_name r = py ''attrition'') (risks_of themes)"
proof -
  have names: "fst ` set theme_queries
      = {py ''demand'', py ''attrition'', py ''guidance'', py ''margins'', py ''deals''}"
    by (auto simp: theme_queries_def)
  have "py ''competition'' \<notin> fst ` set theme_queries" "py ''macro'' \<notin> fst ` set theme_queries"
    "py ''regulation'' \<notin> fst ` set theme_queries"
    unfolding names by (simp_all add: py_def)
  with assms have "py ''competition'' \<notin> set (map th_theme themes)"
    "py ''macro'' \<notin> set (map th_theme themes)"
    "py ''regulation'' \<notin> set (map th_theme themes)"
    by blast+
  then have "find (\<lambda>t. th_theme t = py ''competition'') themes = None"
    "find (\<lambda>t. th_theme t = py ''macro'') themes = None"
    "find (\<lambda>t. th_theme t = py ''regulation'') themes = None"
    by (simp_all add: find_absent)
  then show ?thesis
    by (simp add: risks_of_def risk_themes_def List.map_filter_def split: option.splits)
qed

lemmas analyzer_eval =
  demo_libs_def demo_transcripts_def missing_transcripts_def demo_tool_def new_tool_def
  index_transcripts_def transcript_chunks_def chunk_text_def strip_def name_of_def
  str_of_nat_def ensure_embedder_def Let_def py_def is_space_def

lemma demo_chunks:
  "concat (map (transcript_chunks demo_libs) demo_transcripts)
     = [\<lparr>c_source = py ''call'', c_chunk_id = py ''call_chunk_0'',
          c_text = py ''attrition fell and demand grew''\<rparr>]"
  by (simp add: analyzer_eval upt_rec[of 0])

lemma demo_index:
  "fst (index_transcripts demo_libs demo_tool demo_transcripts)"
  "chunks (snd (index_transcripts demo_libs demo_tool demo_transcripts))
     = [\<lparr>c_source = py ''call'', c_chunk_id = py ''call_chunk_0'',
          c_text = py ''attrition fell and demand grew''\<rparr>]"
  "index (snd (index_transcripts demo_libs demo_tool demo_transcripts)) = Some [[30]]"
  by (simp_all add: index_transcripts_def Let_def demo_chunks)
     (simp_all add: demo_libs_def demo_tool_def new_tool_def ensure_embedder_def py_def)


lemma py_eq_iff: "py a = py b \<longleftrightarrow> a = b"
proof -
  have "inj (of_char :: char \<Rightarrow> nat)" by (rule injI) simp
  then show ?thesis by (simp add: py_def inj_map_eq_map)
qed

lemma demo_retrieve:
  assumes "chunks T = [\<lparr>c_source = py ''call'', c_chunk_id = py ''call_chunk_0'',
                        c_text = py ''attrition fell and demand grew''\<rparr>]"
    and "index T = Some [[30]]" and "embedder T = sentence_transformer demo_libs"
    and "0 < k"
  shows "retrieve demo_libs T q k = (Some [demo_hit], T)"
  using assms
proof -
  have "length (py ''attrition fell and demand grew'') \<le> 600" by (simp add: py_def)
  moreover from assms(3) have "T\<lparr>embedder := sentence_transformer demo_libs\<rparr> = T" by simp
  ultimately show ?thesis
    using assms
    by (simp add: retrieve_def retrieve_faiss_def ensure_embedder_def Let_def
          py_index_def mk_hit_def demo_hit_def demo_libs_def)
qed

lemma demo_indexed_tool:
  "embedder (snd (index_transcripts demo_libs demo_tool demo_transcripts))
     = sentence_transformer demo_libs"
  by (simp add: index_transcripts_def Let_def demo_chunks)
     (simp add: demo_libs_def demo_tool_def new_tool_def ensure_embedder_def py_def)

lemma demo_analyze_risks:
  "map_option qs_risks (fst (analyze demo_libs demo_tool demo_transcripts))
     = Some [\<lparr>rk_name = py ''attrition'', rk_evidence = [py ''call_chunk_0'']\<rparr>]"
proof -
  obtain T0 where i: "index_transcripts demo_libs demo_tool demo_transcripts = (True, T0)"
    using demo_index(1) by (cases "index_transcripts demo_libs demo_tool demo_transcripts") auto
  with demo_index(2,3) demo_indexed_tool have
    t: "chunks T0 = [\<lparr>c_source = py ''call'', c_chunk_id = py ''call_chunk_0'',
                        c_text = py ''attrition fell and demand grew''\<rparr>]"
       "index T0 = Some [[30]]" "embedder T0 = sentence_transformer demo_libs"
    by simp_all
  have r: "retrieve demo_libs T0 q 5 = (Some [demo_hit], T0)"
       "retrieve demo_libs T0 q 3 = (Some [demo_hit], T0)" for q
    by (simp_all add: demo_retrieve[OF t])
  have th: "theme_loop demo_libs T0 theme_queries
      = (Some (map (\<lambda>n. \<lparr>th_theme = n, th_count = 1, th_examples = [demo_hit]\<rparr>)
                [py ''demand'', py ''attrition'', py ''guidance'', py ''margins'', py ''deals'']), T0)"
    by (simp add: theme_queries_def r py_eq_iff)
  have cn: "count_loop demo_libs T0 positive_queries = (Some 4, T0)"
     "count_loop demo_libs T0 negative_queries = (Some 4, T0)"
    by (simp_all add: positive_queries_def negative_queries_def r)
  have rk: "risks_of (map (\<lambda>n. \<lparr>th_theme = n, th_count = 1, th_examples = [demo_hit]\<rparr>)
                [py ''demand'', py ''attrition'', py ''guidance'', py ''margins'', py ''deals''])
     = [\<lparr>rk_name = py ''attrition'', rk_evidence = [py ''call_chunk_0'']\<rparr>]"
    by (simp add: risks_of_def risk_themes_def demo_hit_def py_eq_iff)
  show ?thesis
    using rk by (simp add: analyze_def i th cn r)
qed

lemma missing_unreadable:
  "list_all (\<lambda>t. case t_local_path t of None \<Rightarrow> True
                 | Some path \<Rightarrow> path = [] \<or> read_file demo_libs path = None) missing_transcripts"
  by (simp add: missing_transcripts_def demo_libs_def py_eq_iff)

lemma no_encode_raises:
  "ensure_embedder no_encode_libs demo_tool
     (map c_text (concat (map (transcript_chunks no_encode_libs) demo_transcripts))) = None"
  by (simp add: ensure_embedder_def no_encode_libs_def demo_tool_def new_tool_def demo_libs_def)

lemma no_faiss_add_fields:
  "np_array no_faiss_add_libs = Some Some \<and> (\<forall>e. Some e \<noteq> None)
   \<and> faiss_add no_faiss_add_libs = Some (\<lambda>a. None) \<and> (\<forall>a::vec list. (\<lambda>a. None :: vec list option) a = None)"
  by (simp add: no_faiss_add_libs_def demo_libs_def)

subsection \<open>The fallback embedder\<close>












subsection \<open>Retrieval\<close>





lemma insort_ranked:
  assumes "sorted_wrt (\<lambda>i j. d i < d j \<or> (d i = d j \<and> i < j)) ys"
    and "\<forall>y\<in>set ys. x < y"
  shows "sorted_wrt (\<lambda>i j. d i < d j \<or> (d i = d j \<and> i < j)) (insort_key d x ys)"
  using assms
proof (induction ys)
  case Nil
  then show ?case by simp
next
  case (Cons y ys)
  show ?case
  proof (cases "d x \<le> d y")
    case True
    have "\<forall>z\<in>set (y # ys). d x < d z \<or> (d x = d z \<and> x < z)"
    proof
      fix z assume z: "z \<in> set (y # ys)"
      then have "d y \<le> d z" using Cons.prems(1) by auto
      with True have "d x \<le> d z" by simp
      moreover from z Cons.prems(2) have "x < z" by auto
      ultimately show "d x < d z \<or> (d x = d z \<and> x < z)" by auto
    qed
    with True Cons.prems(1) show ?thesis by simp
  next
    case False
    then have yx: "d y < d x" by simp
    from Cons.prems have ih: "sorted_wrt (\<lambda>i j. d i < d j \<or> (d i = d j \<and> i < j)) (insort_key d x ys)"
      by (intro Cons.IH) auto
    have "\<forall>z\<in>set (insort_key d x ys). d y < d z \<or> (d y = d z \<and> y < z)"
      using Cons.prems(1) yx by (auto simp: set_insort_key)
    with False ih show ?thesis by simp
  qed
qed

lemma sort_key_ranked:
  "sorted_wrt (<) xs \<Longrightarrow> sorted_wrt (\<lambda>i j. d i < d j \<or> (d i = d j \<and> i < j)) (sort_key d xs)"
proof (induction xs)
  case Nil
  then show ?case by simp
next
  case (Cons x xs)
  then have "sorted_wrt (\<lambda>i j. d i < d j \<or> (d i = d j \<and> i < j)) (sort_key d xs)"
    and "\<forall>y\<in>set (sort_key d xs). x < y" by auto
  then show ?case by (simp add: insort_ranked)
qed

lemma ranked_sorted_indices: "ranked d (take k (sort_key d [0..<n]))"
proof -
  have "sorted_wrt (<) [0..<n]" by (simp add: sorted_wrt_upt)
  then have "sorted_wrt (\<lambda>i j. d i < d j \<or> (d i = d j \<and> i < j)) (sort_key d [0..<n])"
    by (rule sort_key_ranked)
  then show ?thesis unfolding ranked_def by (rule sorted_wrt_take)
qed













lemma ensure_embedder_chunks: "ensure_embedder L (T\<lparr>chunks := cs\<rparr>) = ensure_embedder L T"
  by (simp add: ensure_embedder_def)


lemma index_transcripts_unfold:
  "index_transcripts L T0 ts =
     (let cs = concat (map (transcript_chunks L) ts); emb = ensure_embedder L T0;
          T2 = T0\<lparr>chunks := cs, embedder := Some emb\<rparr>
      in if cs = [] then (False, T0\<lparr>chunks := cs\<rparr>)
         else case emb (map c_text cs) of
                None \<Rightarrow> (False, T2)
              | Some embs \<Rightarrow>
                  (case (case np_array L of None \<Rightarrow> None | Some mk \<Rightarrow> mk embs) of
                     None \<Rightarrow> (True, T2\<lparr>embeddings := Some (Py_lists embs), index := None\<rparr>)
                   | Some emb_array \<Rightarrow>
                       (case faiss_add L of
                          None \<Rightarrow> (True, T2\<lparr>embeddings := Some (Np_array emb_array),
                                              index := None\<rparr>)
                        | Some add \<Rightarrow>
                            (case add emb_array of
                               None \<Rightarrow> (False, T2\<lparr>index := Some []\<rparr>)
                             | Some idx \<Rightarrow> (True, T2\<lparr>index := Some idx\<rparr>)))))"
  by (simp add: index_transcripts_def Let_def ensure_embedder_chunks
           del: concat_eq_Nil_conv map_is_Nil_conv)




lemma scan_chunks:
  "concat (map (transcript_chunks scan_libs) three_transcripts)
     = [\<lparr>c_source = py ''a'', c_chunk_id = py ''a_chunk_0'', c_text = py ''growth''\<rparr>,
        \<lparr>c_source = py ''b'', c_chunk_id = py ''b_chunk_0'', c_text = py ''demand up''\<rparr>,
        \<lparr>c_source = py ''c'', c_chunk_id = py ''c_chunk_0'', c_text = py ''margin''\<rparr>]"
  by (simp add: three_transcripts_def scan_libs_def transcript_chunks_def chunk_text_def strip_def
        name_of_def str_of_nat_def Let_def py_def is_space_def upt_rec[of 0])

lemma scan_index:
  "index_transcripts scan_libs (new_tool scan_libs False None) three_transcripts = (True, scan_tool)"
  "chunks scan_tool
     = [\<lparr>c_source = py ''a'', c_chunk_id = py ''a_chunk_0'', c_text = py ''growth''\<rparr>,
        \<lparr>c_source = py ''b'', c_chunk_id = py ''b_chunk_0'', c_text = py ''demand up''\<rparr>,
        \<lparr>c_source = py ''c'', c_chunk_id = py ''c_chunk_0'', c_text = py ''margin''\<rparr>]"
  "index scan_tool = None"
  "embeddings scan_tool = Some (Py_lists [[6], [9], [6]])"
  "embedder scan_tool = sentence_transformer scan_libs"
  unfolding scan_tool_def index_transcripts_unfold scan_chunks Let_def
  by (simp_all add: scan_libs_def new_tool_def ensure_embedder_def py_def)

lemma sqrt_16: "sqrt 16 = 4"
  using real_sqrt_abs[of 4] by simp

lemma sqrt_49: "sqrt 49 = 7"
  using real_sqrt_abs[of 7] by simp

lemma scan_dists:
  "euclid [6] [2] = 4" "euclid [9] [2] = 7"
  by (simp_all add: euclid_def sqrt_16 sqrt_49)

lemma scan_retrieve:
  "fst (retrieve scan_libs scan_tool (py ''xx'') 5)
     = Some [\<lparr>h_chunk_id = py ''a_chunk_0'', h_source = py ''a'', h_text = py ''growth'',
              h_score = 4\<rparr>,
             \<lparr>h_chunk_id = py ''c_chunk_0'', h_source = py ''c'', h_text = py ''margin'',
              h_score = 4\<rparr>,
             \<lparr>h_chunk_id = py ''b_chunk_0'', h_source = py ''b'', h_text = py ''demand up'',
              h_score = 7\<rparr>]"
proof -
  have q: "ensure_embedder scan_libs scan_tool [py ''xx''] = Some [[2]]"
    by (simp add: ensure_embedder_def scan_index(5)) (simp add: scan_libs_def py_def)
  have n: "retrieve_numpy scan_libs e rs cs qq k = None" for e rs cs qq k
    by (simp add: retrieve_numpy_def scan_libs_def)
  have p: "retrieve_python (ensure_embedder scan_libs scan_tool) [[6], [9], [6]] (chunks scan_tool)
             (py ''xx'') 5
     = Some [mk_hit (chunks scan_tool ! 0) 4, mk_hit (chunks scan_tool ! 2) 4,
             mk_hit (chunks scan_tool ! 1) 7]"
    by (simp add: retrieve_python_def q Let_def scan_dists slice_to_def scan_index(2)
          upt_rec[of 0] upt_rec[of 1] upt_rec[of 2])
  show ?thesis
    by (simp add: retrieve_def scan_index(3,4) Let_def n p)
       (simp add: scan_index(2) mk_hit_def py_def)
qed


lemma scan_libs_stable: "stable_libs scan_libs"
proof -
  have a: "ranked ((!) ds) (sort_key ((!) ds) [0..<length ds])" for ds :: "real list"
    using ranked_sorted_indices[of "(!) ds" "length ds" "length ds"] by simp
  have b: "ranked (\<lambda>i. 0) [0..<n]" for n
    by (simp add: ranked_def sorted_wrt_upt)
  have c: "replicate n (0::real) = map (\<lambda>i. 0) (map int [0..<n])" for n
    by (simp add: map_replicate_const)
  show ?thesis
    unfolding stable_libs_def
  proof (intro conjI allI impI)
    fix ds show "ranked ((!) ds) (np_argsort scan_libs ds)"
      using a[of ds] by (simp add: scan_libs_def)
  next
    fix idx q k ids ds
    assume "faiss_search scan_libs idx q k = Some (ids, ds)"
    then have i: "ids = map int [0..<nat k]" and d: "ds = replicate (nat k) 0"
      by (simp_all add: scan_libs_def)
    have "map nat ids = [0..<nat k]" by (simp add: i o_def map_idI)
    with b[of "nat k"] c[of "nat k"] i d
    show "\<exists>d. ds = map (\<lambda>i. d (nat i)) ids \<and> ranked d (map nat ids)"
      by (intro exI[of _ "\<lambda>i. 0"]) simp
  qed
qed






section \<open>The claims\<close>

text \<open>
  C1, as the code has it.  In every run of the cascade the metric map only grows by
  appending: an entry present after the table stage, or after the text stage, is the
  entry of that key in the final map; the keys of the final map are distinct; the map
  after a stage is the map before it followed by new entries.  The final entry of a key
  is the one set by the first stage that set it, and it is made from the candidates of
  the backends by precedence: from the first candidate of the table backend for the key
  if there is one; otherwise, for the four required keys only (total_revenue,
  net_profit, operating_profit, ebitda), from the first such candidate in the text;
  otherwise, when OCR runs, from the first such candidate in the OCR text.  A candidate
  from the text for any other key is dropped by the guard of the text stage, so that
  such a key can be set by OCR although the text backend produced it.  The cascade ends
  with the OCR stage and has no derived stage; the derivations of the enricher, which
  work on a copy of a metric dictionary, leave the entry of every key of the final map
  as it is.
\<close>

theorem precedence_never_overwritten:
  "(map_of (st_metrics (after_table E p)) k = Some e
      \<longrightarrow> map_of (metrics (extract_from_single_report E p meta)) k = Some e)
   \<and> (map_of (st_metrics (after_text E p)) k = Some e
      \<longrightarrow> map_of (metrics (extract_from_single_report E p meta)) k = Some e)
   \<and> distinct (map fst (metrics (extract_from_single_report E p meta)))
   \<and> (\<exists>new. st_metrics (after_text E p) = st_metrics (after_table E p) @ new)
   \<and> (\<exists>new. metrics (extract_from_single_report E p meta) = st_metrics (after_text E p) @ new)
   \<and> (map_of (metrics (extract_from_single_report E p meta)) k = Some e \<longrightarrow>
        (case m_source e of
           Camelot pg \<Rightarrow> map_of (st_metrics (after_table E p)) k = Some e
         | Pdfplumber \<Rightarrow> map_of (st_metrics (after_table E p)) k = None
                          \<and> map_of (st_metrics (after_text E p)) k = Some e
         | Ocr \<Rightarrow> map_of (st_metrics (after_text E p)) k = None))
   \<and> map_of (metrics (extract_from_single_report E p meta)) k = by_precedence E p k
   \<and> st_metrics (after_ocr E p) = metrics (extract_from_single_report E p meta)
   \<and> (map_of (metrics (extract_from_single_report E p meta)) k = Some e \<and> ms k = Some v
        \<longrightarrow> qoq_loop sf base_keys (enrich_margin sf ms) k = Some v)"
proof -
  from cascade_decomposition[of E p] obtain tab tx ocr where d:
    "st_metrics (after_table E p) = tab"
    "st_metrics (after_text E p) = tab @ tx"
    "st_metrics (after_ocr E p) = tab @ tx @ ocr"
    "distinct (map fst (tab @ tx @ ocr))"
    and src_tab: "\<forall>x\<in>set tab. \<exists>pg. m_source (snd x) = Camelot pg"
    and src_tx: "\<forall>x\<in>set tx. m_source (snd x) = Pdfplumber"
    and src_ocr: "\<forall>x\<in>set ocr. m_source (snd x) = Ocr"
    by blast
  have R: "metrics (extract_from_single_report E p meta) = tab @ tx @ ocr"
    by (simp add: extract_from_single_report_def Let_def d)
  have dt: "distinct (map fst tab)" and dx: "distinct (map fst (tab @ tx))"
    using d(4) by auto
  have disj_ocr: "k' \<notin> fst ` set (tab @ tx)" if "(k', e') \<in> set ocr" for k' e'
  proof -
    from that have "k' \<in> fst ` set ocr" by force
    with d(4) show ?thesis by auto
  qed
  have disj_tx: "k' \<notin> fst ` set tab" if "(k', e') \<in> set tx" for k' e'
  proof -
    from that have "k' \<in> fst ` set tx" by force
    with dx show ?thesis by auto
  qed
  have c1: "map_of (tab @ tx @ ocr) k = Some e" if "map_of tab k = Some e"
    using that by (rule map_of_append_left)
  have c2: "map_of (tab @ tx @ ocr) k = Some e" if "map_of (tab @ tx) k = Some e"
    using map_of_append_left[OF that, of ocr] by simp
  have prov: "(case m_source e of
           Camelot pg \<Rightarrow> map_of tab k = Some e
         | Pdfplumber \<Rightarrow> map_of tab k = None \<and> map_of (tab @ tx) k = Some e
         | Ocr \<Rightarrow> map_of (tab @ tx) k = None)"
    if a: "map_of (tab @ tx @ ocr) k = Some e"
  proof -
    from a have "(k, e) \<in> set (tab @ tx @ ocr)" by (rule map_of_SomeD)
    then have mem: "(k, e) \<in> set tab \<or> (k, e) \<in> set tx \<or> (k, e) \<in> set ocr" by simp
    show ?thesis
    proof (cases "m_source e")
      case (Camelot pg)
      have "(k, e) \<notin> set tx" using src_tx Camelot by fastforce
      moreover have "(k, e) \<notin> set ocr" using src_ocr Camelot by fastforce
      ultimately have "(k, e) \<in> set tab" using mem by blast
      then have "map_of tab k = Some e" by (simp only: map_of_distinct_mem[OF dt])
      with Camelot show ?thesis by simp
    next
      case Pdfplumber
      have "(k, e) \<notin> set tab" using src_tab Pdfplumber by fastforce
      moreover have "(k, e) \<notin> set ocr" using src_ocr Pdfplumber by fastforce
      ultimately have i: "(k, e) \<in> set tx" using mem by blast
      then have "(k, e) \<in> set (tab @ tx)" by simp
      then have "map_of (tab @ tx) k = Some e" by (simp only: map_of_distinct_mem[OF dx])
      moreover from disj_tx[OF i] have "map_of tab k = None" by (simp add: map_of_eq_None_iff)
      ultimately show ?thesis using Pdfplumber by simp
    next
      case Ocr
      have "(k, e) \<notin> set tab" using src_tab Ocr by fastforce
      moreover have "(k, e) \<notin> set tx" using src_tx Ocr by fastforce
      ultimately have i: "(k, e) \<in> set ocr" using mem by blast
      from disj_ocr[OF i] have "map_of (tab @ tx) k = None" by (subst map_of_eq_None_iff) simp
      with Ocr show ?thesis by simp
    qed
  qed
  have fin: "map_of (tab @ tx @ ocr) k = by_precedence E p k"
    using final_lookup[of E p k] by (simp add: d(3))
  have der: "qoq_loop sf base_keys (enrich_margin sf ms) k = Some v"
    if "map_of (tab @ tx @ ocr) k = Some e \<and> ms k = Some v"
  proof -
    from that fin have "by_precedence E p k = Some e" by simp
    then have "k \<in> set metric_keys" by (rule by_precedence_key)
    with that show ?thesis by (intro derivations_keep_metric_keys) simp_all
  qed
  have e1: "\<exists>new. tab @ tx = tab @ new" by blast
  have e2: "\<exists>new. tab @ tx @ ocr = (tab @ tx) @ new" by simp
  have old: "(map_of tab k = Some e \<longrightarrow> map_of (tab @ tx @ ocr) k = Some e)
   \<and> (map_of (tab @ tx) k = Some e \<longrightarrow> map_of (tab @ tx @ ocr) k = Some e)
   \<and> distinct (map fst (tab @ tx @ ocr))
   \<and> (\<exists>new. tab @ tx = tab @ new)
   \<and> (\<exists>new. tab @ tx @ ocr = (tab @ tx) @ new)
   \<and> (map_of (tab @ tx @ ocr) k = Some e \<longrightarrow>
        (case m_source e of
           Camelot pg \<Rightarrow> map_of tab k = Some e
         | Pdfplumber \<Rightarrow> map_of tab k = None \<and> map_of (tab @ tx) k = Some e
         | Ocr \<Rightarrow> map_of (tab @ tx) k = None))"
    using c1 c2 d(4) e1 e2 prov by blast
  show ?thesis
    unfolding R d(1) d(2) d(3)
    using old fin der by blast
qed



theorem precedence_never_overwritten_witness:
  "map_of (st_metrics (after_table demo_env (py ''q1.pdf''))) (py ''total_revenue'')
     = Some demo_revenue
   \<and> map_of (st_metrics (after_text demo_env (py ''q1.pdf''))) (py ''total_revenue'')
     = Some demo_revenue
   \<and> map_of (metrics (extract_from_single_report demo_env (py ''q1.pdf'') ()))
         (py ''total_revenue'') = Some demo_revenue
   \<and> m_source demo_revenue = Camelot (Some 1)
   \<and> by_precedence demo_env (py ''q1.pdf'') (py ''total_revenue'') = Some demo_revenue
   \<and> demo_metrics (py ''total_revenue'')
        = Some (PyDict [(py ''value'', PyFloat 200), (py ''unit'', PyStr INR_Cr),
                        (py ''confidence'', PyFloat (85 / 100))])
   \<and> qoq_loop no_str_float base_keys (enrich_margin no_str_float demo_metrics)
         (py ''total_revenue'')
        = Some (PyDict [(py ''value'', PyFloat 200), (py ''unit'', PyStr INR_Cr),
                        (py ''confidence'', PyFloat (85 / 100))])"
  using precedence_never_overwritten
          [where E = demo_env and p = "py ''q1.pdf''" and k = "py ''total_revenue''"
             and e = demo_revenue and meta = "()" and ms = demo_metrics and sf = no_str_float
             and v = "PyDict [(py ''value'', PyFloat 200), (py ''unit'', PyStr INR_Cr),
                              (py ''confidence'', PyFloat (85 / 100))]"]
        demo_after_table [of "py ''q1.pdf''"] demo_after_text_revenue [of "py ''q1.pdf''"]
        demo_metrics_lookup(3)
  by (auto simp add: demo_revenue_def)

text \<open>
  The text of a document without tables gives a revenue and an EPS candidate; EPS is not
  one of the required keys, so the text stage drops that candidate, and since the net
  profit is still missing OCR runs and sets the key from its own candidate: the final
  entry of \<^verbatim>\<open>eps\<close> is the OCR value 2, not the value 9 of the text backend, the
  higher-priority method that produced the key.
\<close>

theorem text_candidate_dropped_counterexample:
  "has_camelot eps_env = False
   \<and> map (\<lambda>c. (rm_label c, rm_value c)) (pdfplumber_candidates eps_env (py ''q1.pdf''))
       = [(py ''Revenue'', 7), (py ''EPS'', 9)]
   \<and> map (\<lambda>c. (rm_label c, rm_value c)) (ocr_candidates eps_env (py ''q1.pdf''))
       = [(py ''EPS'', 2)]
   \<and> normalize_metric_key (str_lower eps_env) (py ''EPS'') = Some (py ''eps'')
   \<and> metrics (extract_from_single_report eps_env (py ''q1.pdf'') ())
       = [(py ''total_revenue'',
           \<lparr>m_value = 7, m_unit = INR_Cr, m_confidence = 65 / 100, m_source = Pdfplumber,
            m_label = py ''Revenue''\<rparr>),
          (py ''eps'',
           \<lparr>m_value = 2, m_unit = INR_Cr, m_confidence = 45 / 100, m_source = Ocr,
            m_label = py ''EPS''\<rparr>)]"
  using eps_candidates [of "py ''q1.pdf''"] eps_normalized eps_run [of "py ''q1.pdf''" "()"]
  by (simp add: eps_env_def)

text \<open>
  C2. The OCR stage is attempted (the flag of its attempt record is set, and the OCR
  extractor is invoked) exactly when, after the text stage, total_revenue or net_profit
  is absent from the metric map.
\<close>

theorem ocr_attempted_iff_critical_missing:
  "(ocr_attempted (extraction_log (extract_from_single_report E p meta))
      \<longleftrightarrow> (map_of (st_metrics (after_text E p)) (py ''total_revenue'') = None
           \<or> map_of (st_metrics (after_text E p)) (py ''net_profit'') = None))
   \<and> (OcrBackend \<in> set (backend_calls (extract_from_single_report E p meta))
      \<longleftrightarrow> (map_of (st_metrics (after_text E p)) (py ''total_revenue'') = None
           \<or> map_of (st_metrics (after_text E p)) (py ''net_profit'') = None))"
  by (simp add: extract_from_single_report_def Let_def after_ocr_def ocr_stage_attempted
        after_text_no_ocr critical_metrics_def)

text \<open>
  C3. The number parser returns 12345.67 on the rupee example, 123456 on both the
  Indian-grouped and the Western-grouped example, 9876.54 on the plain decimal, and
  nothing on the empty text and on a text without digits.  The four patterns are tried
  in the order currency-marked, Indian grouping, Western grouping, plain decimal, and
  the result is the conversion of the first pattern that matches: a later pattern is
  consulted only when every earlier one found no match.
\<close>

theorem parse_examples_and_order:
  "parse_inr_number W (rupee # py '' 12,345.67 Cr'') = Some (1234567 / 100)
   \<and> parse_inr_number W (py ''1,23,456'') = Some 123456
   \<and> parse_inr_number W (py ''123,456'') = Some 123456
   \<and> parse_inr_number W (py ''9876.54'') = Some (987654 / 100)
   \<and> parse_inr_number W (py []) = None
   \<and> parse_inr_number W (py ''no numbers here'') = None
   \<and> (txt \<noteq> [] \<and> re_search pattern1 txt = Some m1
        \<longrightarrow> parse_inr_number W txt = float_of_group m1)
   \<and> (txt \<noteq> [] \<and> re_search pattern1 txt = None \<and> re_search (pattern2 W) txt = Some m2
        \<longrightarrow> parse_inr_number W txt = float_of_group m2)
   \<and> (txt \<noteq> [] \<and> re_search pattern1 txt = None \<and> re_search (pattern2 W) txt = None
        \<and> re_search (pattern3 W) txt = Some m3
        \<longrightarrow> parse_inr_number W txt = float_of_group m3)
   \<and> (txt \<noteq> [] \<and> re_search pattern1 txt = None \<and> re_search (pattern2 W) txt = None
        \<and> re_search (pattern3 W) txt = None \<and> re_search (pattern4 W) txt = Some m4
        \<longrightarrow> parse_inr_number W txt = float_of_group_plain m4)
   \<and> (re_search pattern1 txt = None \<and> re_search (pattern2 W) txt = None
        \<and> re_search (pattern3 W) txt = None \<and> re_search (pattern4 W) txt = None
        \<longrightarrow> parse_inr_number W txt = None)"
  using parse_rupee_example parse_indian_example parse_western_example parse_plain_example
    parse_empty_example parse_no_number_example
  by (simp add: parse_inr_number_def)

lemma search_rupee_five:
  "re_search pattern1 (rupee # py ''5'') = Some (Map.empty(1 \<mapsto> py ''5''))"
  by (simp add: parse_eval)

lemma search_western:
  "re_search pattern1 (py ''123,456'') = None"
  "re_search (pattern2 ascii_text) (py ''123,456'') = None"
  "re_search (pattern3 ascii_text) (py ''123,456'') = Some (Map.empty(1 \<mapsto> py ''123,456''))"
  by (simp_all add: parse_eval)

theorem parse_examples_and_order_witness:
  "re_search pattern1 (rupee # py ''5'') = Some (Map.empty(1 \<mapsto> py ''5''))
   \<and> parse_inr_number ascii_text (rupee # py ''5'')
       = float_of_group (Map.empty(1 \<mapsto> py ''5''))
   \<and> re_search pattern1 (py ''123,456'') = None
   \<and> re_search (pattern2 ascii_text) (py ''123,456'') = None
   \<and> re_search (pattern3 ascii_text) (py ''123,456'') = Some (Map.empty(1 \<mapsto> py ''123,456''))
   \<and> parse_inr_number ascii_text (py ''123,456'')
       = float_of_group (Map.empty(1 \<mapsto> py ''123,456''))"
  using parse_examples_and_order [of ascii_text "rupee # py ''5''" "Map.empty(1 \<mapsto> py ''5'')"]
        parse_examples_and_order [of ascii_text "py ''123,456''" _ _ "Map.empty(1 \<mapsto> py ''123,456'')"]
        search_rupee_five search_western
  by (simp add: py_def)

text \<open>
  C4, as the code has it.  The first pattern is introduced by the rupee sign only (the
  marker \<^verbatim>\<open>Rs\<close> is not part of it).  For every text that contains a rupee sign followed,
  after optional whitespace, by characters of \<^verbatim>\<open>[0-9,\.]\<close>, the parser takes the leftmost
  such occurrence and its longest run of these characters, strips the commas and returns
  what \<^verbatim>\<open>float\<close> makes of the rest (nothing when that is not a number), whatever the
  grouping patterns would find; a text without such an occurrence is not matched by the
  first pattern.
\<close>

theorem currency_marked_parsed:
  "(currency_marked t = Some num_str
      \<longrightarrow> parse_inr_number W t = py_float (replace_comma num_str))
   \<and> (currency_marked t = None \<longrightarrow> re_search pattern1 t = None)"
proof (intro conjI impI)
  assume a: "currency_marked t = Some num_str"
  then have ne: "t \<noteq> []" by auto
  from a search_pattern1[of t "[]"] obtain r where
    "re_search pattern1 t = Some r" "r 1 = Some num_str"
    by (auto simp: re_search_def)
  with ne show "parse_inr_number W t = py_float (replace_comma num_str)"
    by (simp add: parse_inr_number_def float_of_group_def)
next
  assume "currency_marked t = None"
  with search_pattern1[of t "[]"] show "re_search pattern1 t = None"
    by (simp add: re_search_def)
qed

lemma currency_marked_examples:
  "currency_marked (rupee # py '' 12,345.67 Cr'') = Some (py ''12,345.67'')"
  "currency_marked (py ''Rs 1,234.56'') = None"
  by (simp_all add: py_def rupee_def is_space_def is_num_char_def is_digit_def comma_def dot_def)

theorem currency_marked_parsed_witness:
  "currency_marked (rupee # py '' 12,345.67 Cr'') = Some (py ''12,345.67'')
   \<and> parse_inr_number ascii_text (rupee # py '' 12,345.67 Cr'')
       = py_float (replace_comma (py ''12,345.67''))
   \<and> py_float (replace_comma (py ''12,345.67'')) = Some (1234567 / 100)
   \<and> currency_marked (py ''Rs 1,234.56'') = None
   \<and> re_search pattern1 (py ''Rs 1,234.56'') = None"
  using currency_marked_parsed [of "rupee # py '' 12,345.67 Cr''" "py ''12,345.67''" ascii_text]
        currency_marked_parsed [of "py ''Rs 1,234.56''"]
        currency_marked_examples
  by (simp add: py_float_def replace_comma_def py_def is_digit_def comma_def dot_def digits_val_def)

text \<open>
  The marker \<^verbatim>\<open>Rs\<close> does not introduce a currency-marked number: on
  \<^verbatim>\<open>Rs 1,234.56\<close> the first pattern finds nothing, and the parser returns 1234 (from the
  Western-grouping pattern), not the 1234.56 that stripping the commas would give.
\<close>

theorem rs_marker_counterexample:
  "re_search pattern1 (py ''Rs 1,234.56'') = None
   \<and> parse_inr_number ascii_text (py ''Rs 1,234.56'') = Some 1234
   \<and> py_float (replace_comma (py ''1,234.56'')) = Some (123456 / 100)"
  by (simp add: parse_eval)

text \<open>
  C5. Whenever indexing reports failure, analyze returns exactly the insufficient-data
  summary (no themes, sentiment score 0 with summary insufficient_data, no forward
  guidance, no risks) and does not raise.  Indexing reports failure, and analyze returns
  that summary, for the empty transcript list, when no transcript has a readable path,
  when no chunk is produced, when the embedder raises on the chunk texts, and when
  building the vector index raises.
\<close>

theorem insufficient_data_when_no_chunks:
  "(\<not> fst (index_transcripts L T ts) \<longrightarrow> fst (analyze L T ts) = Some insufficient_data)
   \<and> fst (analyze L T []) = Some insufficient_data
   \<and> (list_all (\<lambda>t. case t_local_path t of None \<Rightarrow> True
                     | Some path \<Rightarrow> path = [] \<or> read_file L path = None) ts
        \<longrightarrow> fst (analyze L T ts) = Some insufficient_data)
   \<and> (concat (map (transcript_chunks L) ts) = []
        \<longrightarrow> fst (analyze L T ts) = Some insufficient_data)
   \<and> (ensure_embedder L T (map c_text (concat (map (transcript_chunks L) ts))) = None
        \<longrightarrow> fst (analyze L T ts) = Some insufficient_data)
   \<and> (np_array L = Some mk \<and> (\<forall>e. mk e \<noteq> None)
        \<and> faiss_add L = Some add \<and> (\<forall>a. add a = None)
        \<longrightarrow> fst (analyze L T ts) = Some insufficient_data)"
proof -
  have main: "fst (analyze L T ts) = Some insufficient_data"
    if "\<not> fst (index_transcripts L T ts)" for ts
    using that by (auto simp: analyze_def split: prod.splits bool.splits)
  have nochunks: "\<not> fst (index_transcripts L T ts)"
    if "concat (map (transcript_chunks L) ts) = []" for ts
    using that by (simp add: index_transcripts_def Let_def)
  have ee: "ensure_embedder L (T\<lparr>chunks := cs\<rparr>) = ensure_embedder L T" for cs
    by (simp add: ensure_embedder_def)
  have unread: "concat (map (transcript_chunks L) ts) = []"
    if "list_all (\<lambda>t. case t_local_path t of None \<Rightarrow> True
                     | Some path \<Rightarrow> path = [] \<or> read_file L path = None) ts"
    using that by (auto simp: list_all_iff transcript_chunks_def split: option.splits)
  have enc: "\<not> fst (index_transcripts L T ts)"
    if "ensure_embedder L T (map c_text (concat (map (transcript_chunks L) ts))) = None"
    using that by (simp add: index_transcripts_def Let_def ee)
  have fa: "\<not> fst (index_transcripts L T ts)"
    if h: "np_array L = Some mk \<and> (\<forall>e. mk e \<noteq> None)
        \<and> faiss_add L = Some add \<and> (\<forall>a. add a = None)"
  proof -
    from h have tot: "mk e = None \<Longrightarrow> False" for e by blast
    from h show ?thesis
      by (auto simp: index_transcripts_def Let_def split: option.splits dest: tot)
  qed
  show ?thesis
    using main[of ts] main[of "[]"] nochunks[of "[]"] nochunks[of ts] unread enc fa
    by (intro conjI impI) (auto simp del: split_paired_All)
qed

theorem insufficient_data_when_no_chunks_witness:
  "list_all (\<lambda>t. case t_local_path t of None \<Rightarrow> True
                 | Some path \<Rightarrow> path = [] \<or> read_file demo_libs path = None) missing_transcripts
   \<and> fst (analyze demo_libs demo_tool missing_transcripts) = Some insufficient_data
   \<and> ensure_embedder no_encode_libs demo_tool
         (map c_text (concat (map (transcript_chunks no_encode_libs) demo_transcripts))) = None
   \<and> fst (analyze no_encode_libs demo_tool demo_transcripts) = Some insufficient_data
   \<and> faiss_add no_faiss_add_libs = Some (\<lambda>a. None)
   \<and> fst (analyze no_faiss_add_libs demo_tool demo_transcripts) = Some insufficient_data"
  using insufficient_data_when_no_chunks [of demo_libs demo_tool missing_transcripts]
        insufficient_data_when_no_chunks [of no_encode_libs demo_tool demo_transcripts]
        insufficient_data_when_no_chunks [of no_faiss_add_libs demo_tool demo_transcripts Some "\<lambda>a. None"]
        missing_unreadable no_encode_raises no_faiss_add_fields
  by simp



text \<open>
  C7. For every pair of hit counts the code's classifier computes exactly what the
  specification describes: the capped ratio with label positive / cautiously
  optimistic when positive hits dominate, the negated capped ratio with label
  negative / cautious when negative hits dominate, and score 0 with label neutral
  when the counts are equal (both zero included).  Counts 6 and 2 give score 0.75
  and label positive.
\<close>

theorem sentiment_matches_spec:
  "sentiment_of_counts p n = sentiment_spec p n
   \<and> sentiment_of_counts n n = (0, ''neutral'')
   \<and> sentiment_of_counts 6 2 = (75 / 100, ''positive'')"
proof (intro conjI)
  show "sentiment_of_counts p n = sentiment_spec p n"
  proof -
    consider (pos) "n < p" | (neg) "p < n" | (eq) "p = n"
      by linarith
    then show ?thesis
    proof cases
      case pos
      then have "real (max (p + n) 1) = real p + real n" by simp
      with pos show ?thesis
        by (simp only: sentiment_of_counts_def sentiment_spec_def Let_def if_True)
    next
      case neg
      then have "real (max (p + n) 1) = real p + real n" and "\<not> n < p" by simp_all
      with neg show ?thesis
        by (simp only: sentiment_of_counts_def sentiment_spec_def Let_def if_True if_False)
    next
      case eq
      then show ?thesis
        by (simp add: sentiment_of_counts_def sentiment_spec_def)
    qed
  qed
  show "sentiment_of_counts n n = (0, ''neutral'')"
    by (simp add: sentiment_of_counts_def)
  show "sentiment_of_counts 6 2 = (75 / 100, ''positive'')"
    by (simp add: sentiment_of_counts_def Let_def)
qed


text \<open>
  C9, as the code has it.  When the language-model path fails, the enricher returns
  status fallback.  It derives operating_margin as operating_profit / total_revenue * 100
  whenever operating_margin is absent, both operands are present and convert to floats,
  and the revenue is not zero.  It derives the quarter-over-quarter change
  (current - previous) / |previous| * 100 under the key suffixed \<^verbatim>\<open>_qoq_pct\<close> for the base
  keys total_revenue, net_profit and ebitda only, when the caller supplied the prior value
  under the key suffixed \<^verbatim>\<open>_prev\<close>, both convert to floats, the prior value is not zero and
  the loop has not ended at an earlier base key (on a dictionary without a value).  For
  every other base key, and for every key that is neither operating_margin nor one of
  the three keys suffixed \<^verbatim>\<open>_qoq_pct\<close>, the result holds what the cleaning makes of the
  caller's entry and nothing else.  Each derived entry has unit percent and confidence
  0.5.
\<close>

theorem fallback_enrichment:
  "status (validate_and_enrich_metrics sf None ms) = py ''fallback''
   \<and> (ms (py ''operating_margin'') = None
        \<and> ms (py ''operating_profit'') = Some a \<and> ms (py ''total_revenue'') = Some b
        \<and> operand_float sf a = Some op \<and> operand_float sf b = Some rv \<and> rv \<noteq> 0
      \<longrightarrow> fallback_metrics (validate_and_enrich_metrics sf None ms) (py ''operating_margin'')
            = Some (derived_percent ((op / rv) * 100)))
   \<and> (base \<in> set base_keys \<and> loop_reaches ms base
        \<and> ms base = Some c \<and> ms (base @ py ''_prev'') = Some d
        \<and> operand_float sf c = Some cur \<and> operand_float sf d = Some prv \<and> prv \<noteq> 0
      \<longrightarrow> fallback_metrics (validate_and_enrich_metrics sf None ms) (base @ py ''_qoq_pct'')
            = Some (derived_percent (((cur - prv) / \<bar>prv\<bar>) * 100)))
   \<and> (other \<notin> set base_keys
      \<longrightarrow> fallback_metrics (validate_and_enrich_metrics sf None ms) (other @ py ''_qoq_pct'')
            = cleaned_input sf ms (other @ py ''_qoq_pct''))
   \<and> (k \<noteq> py ''operating_margin'' \<and> k \<notin> set (map (\<lambda>b. b @ py ''_qoq_pct'') base_keys)
      \<longrightarrow> fallback_metrics (validate_and_enrich_metrics sf None ms) k = cleaned_input sf ms k)
   \<and> confidence_of (derived_percent x) = Some (PyFloat (5 / 10))
   \<and> unit_of (derived_percent x) = Some (PyStr (py ''%''))"
proof (intro conjI impI)
  show "status (validate_and_enrich_metrics sf None ms) = py ''fallback''"
    by (simp add: validate_and_enrich_metrics_def status_def Let_def)
next
  assume h: "ms (py ''operating_margin'') = None
        \<and> ms (py ''operating_profit'') = Some a \<and> ms (py ''total_revenue'') = Some b
        \<and> operand_float sf a = Some op \<and> operand_float sf b = Some rv \<and> rv \<noteq> 0"
  then have "enrich_margin sf ms (py ''operating_margin'') = Some (derived_percent ((op / rv) * 100))"
    by (simp add: enrich_margin_def)
  moreover have "qoq_loop sf base_keys e (py ''operating_margin'') = e (py ''operating_margin'')" for e
    by (rule qoq_loop_other) (rule base_keys_separate(3))
  ultimately show "fallback_metrics (validate_and_enrich_metrics sf None ms) (py ''operating_margin'')
            = Some (derived_percent ((op / rv) * 100))"
    by (simp add: fallback_metrics_unfold)
next
  assume h: "base \<in> set base_keys \<and> loop_reaches ms base
        \<and> ms base = Some c \<and> ms (base @ py ''_prev'') = Some d
        \<and> operand_float sf c = Some cur \<and> operand_float sf d = Some prv \<and> prv \<noteq> 0"
  let ?e = "enrich_margin sf ms"
  from h have "loop_reaches ?e base" by (simp add: loop_reaches_margin)
  then have na: "list_all (reads_ok ?e) (takeWhile (\<lambda>k. k \<noteq> base) base_keys)"
    by (simp add: loop_reaches_def)
  from h base_keys_separate(4) have "base \<noteq> py ''operating_margin''"
    "base @ py ''_prev'' \<noteq> py ''operating_margin''" by auto
  with h have eb: "?e base = Some c" "?e (base @ py ''_prev'') = Some d"
    by (simp_all add: enrich_margin_other)
  from h have mem: "base \<in> set base_keys" and fl: "operand_float sf c = Some cur"
    "operand_float sf d = Some prv" "prv \<noteq> 0" by simp_all
  have "qoq_loop sf base_keys ?e (base @ py ''_qoq_pct'')
           = Some (derived_percent (((cur - prv) / \<bar>prv\<bar>) * 100))"
    by (rule qoq_loop_hit[OF mem base_keys_separate(2) base_keys_separate(1) subset_refl na eb fl])
  then show "fallback_metrics (validate_and_enrich_metrics sf None ms) (base @ py ''_qoq_pct'')
            = Some (derived_percent (((cur - prv) / \<bar>prv\<bar>) * 100))"
    by (simp add: fallback_metrics_unfold)
next
  assume "other \<notin> set base_keys"
  then have "\<forall>b\<in>set base_keys. other @ py ''_qoq_pct'' \<noteq> b @ py ''_qoq_pct''" by auto
  then have "qoq_loop sf base_keys e (other @ py ''_qoq_pct'') = e (other @ py ''_qoq_pct'')" for e
    by (rule qoq_loop_other)
  then show "fallback_metrics (validate_and_enrich_metrics sf None ms) (other @ py ''_qoq_pct'')
            = cleaned_input sf ms (other @ py ''_qoq_pct'')"
    by (simp add: fallback_metrics_unfold cleaned_input_def enrich_margin_other qoq_key_not_margin)
next
  assume h: "k \<noteq> py ''operating_margin'' \<and> k \<notin> set (map (\<lambda>b. b @ py ''_qoq_pct'') base_keys)"
  then have "\<forall>b\<in>set base_keys. k \<noteq> b @ py ''_qoq_pct''" by auto
  then have "qoq_loop sf base_keys e k = e k" for e
    by (rule qoq_loop_other)
  with h show "fallback_metrics (validate_and_enrich_metrics sf None ms) k = cleaned_input sf ms k"
    by (simp add: fallback_metrics_unfold cleaned_input_def enrich_margin_other)
next
  show "confidence_of (derived_percent x) = Some (PyFloat (5 / 10))"
    by (simp add: confidence_of_def derived_percent_def py_def)
next
  show "unit_of (derived_percent x) = Some (PyStr (py ''%''))"
    by (simp add: unit_of_def derived_percent_def py_def)
qed

theorem fallback_enrichment_witness:
  "status (validate_and_enrich_metrics no_str_float None demo_metrics) = py ''fallback''
   \<and> fallback_metrics (validate_and_enrich_metrics no_str_float None demo_metrics)
        (py ''operating_margin'') = Some (derived_percent 25)
   \<and> py ''net_profit'' \<in> set base_keys \<and> loop_reaches demo_metrics (py ''net_profit'')
   \<and> fallback_metrics (validate_and_enrich_metrics no_str_float None demo_metrics)
        (py ''net_profit'' @ py ''_qoq_pct'') = Some (derived_percent 50)
   \<and> py ''operating_profit'' \<notin> set base_keys
   \<and> fallback_metrics (validate_and_enrich_metrics no_str_float None demo_metrics)
        (py ''operating_profit'' @ py ''_qoq_pct'') = None
   \<and> fallback_metrics (validate_and_enrich_metrics no_str_float None demo_metrics)
        (py ''operating_profit'')
        = Some (PyDict [(py ''value'', PyFloat 50), (py ''unit'', PyStr INR_Cr),
                        (py ''confidence'', PyFloat (4 / 10))])"
  using fallback_enrichment
          [where sf = no_str_float and ms = demo_metrics and a = "PyInt 50"
             and b = "PyDict [(py ''value'', PyFloat 200), (py ''unit'', PyStr INR_Cr),
                              (py ''confidence'', PyFloat (85 / 100))]"
             and op = 50 and rv = 200 and base = "py ''net_profit''"
             and c = "PyFloat 30" and d = "PyInt 20" and cur = 30 and prv = 20
             and other = "py ''operating_profit''" and k = "py ''operating_profit''"]
        demo_metrics_lookup demo_loop_reaches
  by (simp add: operand_float_def base_keys_def small_fits cleaned_input_def clean_entry_def py_def)

text \<open>
  For a key outside the three base keys no change is derived: metrics holding an operating
  profit of 10 and its prior value 5 come back cleaned, with nothing added.  A revenue
  entry without a value ends the loop, so that no change is derived for a net profit of
  10 with the prior value 5 either.  And an operating profit of \<^verbatim>\<open>10**400\<close>, which
  \<^verbatim>\<open>float\<close> rejects, gives no margin with the revenue 1 and is dropped from the result.
\<close>

theorem qoq_other_key_counterexample:
  "fallback_metrics (validate_and_enrich_metrics no_str_float None prior_profit_metrics)
     = [py ''operating_profit'' \<mapsto> PyDict [(py ''value'', PyFloat 10), (py ''unit'', PyStr INR_Cr),
                                            (py ''confidence'', PyFloat (4 / 10))],
        py ''operating_profit_prev'' \<mapsto> PyDict [(py ''value'', PyFloat 5), (py ''unit'', PyStr INR_Cr),
                                                 (py ''confidence'', PyFloat (4 / 10))]]
   \<and> fallback_metrics (validate_and_enrich_metrics no_str_float None prior_profit_metrics)
        (py ''operating_profit'' @ py ''_qoq_pct'') = None
   \<and> broken_revenue_metrics (py ''net_profit'') = Some (PyInt 10)
   \<and> broken_revenue_metrics (py ''net_profit'' @ py ''_prev'') = Some (PyInt 5)
   \<and> fallback_metrics (validate_and_enrich_metrics no_str_float None broken_revenue_metrics)
        (py ''net_profit'' @ py ''_qoq_pct'') = None
   \<and> huge_profit_metrics (py ''operating_profit'') = Some (PyInt (10 ^ 400))
   \<and> \<not> int_fits_float (10 ^ 400)
   \<and> huge_profit_metrics (py ''total_revenue'') = Some (PyInt 1)
   \<and> fallback_metrics (validate_and_enrich_metrics no_str_float None huge_profit_metrics)
        (py ''operating_margin'') = None
   \<and> fallback_metrics (validate_and_enrich_metrics no_str_float None huge_profit_metrics)
        (py ''operating_profit'') = None"
  using huge_does_not_fit
  by (simp only: prior_profit_result broken_revenue_result huge_profit_result)
     (simp add: py_def broken_revenue_metrics_def huge_profit_metrics_def huge_int_def)

text \<open>
  C10. In every summary analyze returns, the list of risks has at most one entry and
  every entry is named attrition: a risk needs a detected theme of its name, and of the
  four candidate names only attrition is a key of the theme queries.
\<close>

theorem risks_only_attrition:
  "fst (analyze L T ts) = Some s
     \<longrightarrow> length (qs_risks s) \<le> 1 \<and> list_all (\<lambda>r. rk_name r = py ''attrition'') (qs_risks s)"
proof
  assume a: "fst (analyze L T ts) = Some s"
  show "length (qs_risks s) \<le> 1 \<and> list_all (\<lambda>r. rk_name r = py ''attrition'') (qs_risks s)"
  proof (cases "fst (index_transcripts L T ts)")
    case False
    with a have "s = insufficient_data"
      by (auto simp: analyze_def split: prod.splits bool.splits)
    then show ?thesis by (simp add: insufficient_data_def)
  next
    case True
    with a obtain T0 themes T1 where
      "theme_loop L T0 theme_queries = (Some themes, T1)" "qs_risks s = risks_of themes"
      by (auto simp: analyze_def split: prod.splits bool.splits option.splits)
    with theme_loop_names[of L T0 theme_queries themes T1] risks_of_attrition[of themes]
    show ?thesis by simp
  qed
qed

theorem risks_only_attrition_witness:
  "fst (analyze demo_libs demo_tool demo_transcripts)
     = Some (the (fst (analyze demo_libs demo_tool demo_transcripts)))
   \<and> length (qs_risks (the (fst (analyze demo_libs demo_tool demo_transcripts)))) \<le> 1
   \<and> list_all (\<lambda>r. rk_name r = py ''attrition'')
        (qs_risks (the (fst (analyze demo_libs demo_tool demo_transcripts))))
   \<and> map rk_name (qs_risks (the (fst (analyze demo_libs demo_tool demo_transcripts))))
       = [py ''attrition'']"
  using risks_only_attrition
          [of demo_libs demo_tool demo_transcripts
              "the (fst (analyze demo_libs demo_tool demo_transcripts))"]
        demo_analyze_risks
  by auto

end
